theory Spec2Isabelle
  imports Main "HOL-Library.AList"
begin

section \<open>Values carried by messages\<close>

text \<open>
  Message payloads are JSON values as socket.io hands them to a handler; a field that
  is absent from a payload reads as \<open>JUndefined\<close>. A handler destructures its
  payload, which is taken to be an object. Numbers are kept as integers: the handlers
  only test a value for truthiness or convert it to a string.
  The identifier fields of the protocol (\<open>userId\<close>, \<open>targetUserId\<close>, \<open>roomId\<close>,
  \<open>callId\<close>, \<open>targetSocketId\<close>) and \<open>socket.id\<close> are strings; every other field
  (\<open>username\<close>, \<open>callerInfo\<close>, \<open>userInfo\<close>, \<open>offer\<close>, \<open>answer\<close>,
  \<open>candidate\<close>) is an arbitrary JSON value.
\<close>

datatype json =
    JUndefined
  | JNull
  | JBool bool
  | JNum int
  | JStr string
  | JArr "json list"
  | JObj "(string \<times> json) list"

text \<open>JavaScript truthiness, as tested by \<open>if (x)\<close> and \<open>!x\<close>.\<close>

fun truthy :: "json \<Rightarrow> bool" where
  "truthy JUndefined = False"
| "truthy JNull = False"
| "truthy (JBool b) = b"
| "truthy (JNum n) = (n \<noteq> 0)"
| "truthy (JStr s) = (s \<noteq> [])"
| "truthy (JArr xs) = True"
| "truthy (JObj kvs) = True"

text \<open>Reading a property of \<open>undefined\<close> or \<open>null\<close> throws a TypeError.\<close>

datatype js_error = TypeError

fun nullish :: "json \<Rightarrow> bool" where
  "nullish JUndefined = True"
| "nullish JNull = True"
| "nullish v = False"

text \<open>
  \<open>get_prop v k\<close> is \<open>v.k\<close> for a value that is not nullish and a field name \<open>k\<close> such as
  \<open>id\<close> or \<open>username\<close>: the field of an object (the last binding of a repeated key),
  \<open>undefined\<close> on anything else.
\<close>

fun get_prop :: "json \<Rightarrow> string \<Rightarrow> json" where
  "get_prop (JObj kvs) k = (case map_of (rev kvs) k of None \<Rightarrow> JUndefined | Some v \<Rightarrow> v)"
| "get_prop v k = JUndefined"

text \<open>
  A template literal \<open>`${v}`\<close> converts \<open>v\<close> to a string, and the conversion of an
  object calls its \<open>toString\<close>. A JSON object with a key \<open>toString\<close> of its own hides
  the inherited method behind a value that cannot be called, and \<open>valueOf\<close> gives back
  the object, so the conversion throws a TypeError. An array is converted with
  \<open>join\<close>, which converts every element that is neither \<open>null\<close> nor \<open>undefined\<close>.
  Every other value has a string. \<open>console.log\<close> with further arguments prints them
  with \<open>util.inspect\<close>, which converts nothing.
\<close>

fun toString_throws :: "json \<Rightarrow> bool" where
  "toString_throws (JObj kvs) = (''toString'' \<in> set (map fst kvs))"
| "toString_throws (JArr xs) = (\<exists>x \<in> set xs. \<not> nullish x \<and> toString_throws x)"
| "toString_throws v = False"

section \<open>What a handler does to the outside\<close>

text \<open>
  The four ways the handlers address an emission, kept as the code writes them:
  \<open>socket.emit\<close> (this connection only), \<open>io.to(id).emit\<close>, \<open>socket.to(room).emit\<close>
  (the room, without the sender) and \<open>io.emit\<close> (every connection).
\<close>

datatype target =
    ToSocket string
  | To string
  | ToRoomExceptSender string string
  | ToAll

text \<open>
  An action is an emission (target, event name, optional payload) or a call of
  \<open>socket.join\<close> / \<open>socket.leave\<close> (socket id, room).
\<close>

datatype action =
    Emit target string "json option"
  | SocketJoin string string
  | SocketLeave string string

fun is_emit :: "action \<Rightarrow> bool" where
  "is_emit (Emit t n p) = True"
| "is_emit a = False"

definition emitted :: "action list \<Rightarrow> action list" where
  "emitted acts = filter is_emit acts"

section \<open>The server state of index.js and of the validated variant\<close>

record user =
  userId :: string
  username :: json
  socketId :: string

text \<open>
  A room member is an object \<open>{socketId, userInfo}\<close> held in a \<open>Set\<close>. A \<open>Set\<close>
  compares objects by identity, so every member carries the identity \<open>mref\<close> of its
  object; \<open>next_ref\<close> is the next unused identity.
\<close>

record member =
  mref :: nat
  member_socketId :: string
  userInfo :: json

text \<open>
  A JavaScript \<open>Map\<close> keeps its keys in insertion order: an association list with
  \<open>AList.update\<close> for \<open>set\<close> (in place when the key is there, at the end otherwise),
  \<open>AList.delete\<close> for \<open>delete\<close> and \<open>map_of\<close> for \<open>get\<close>.
\<close>

record state =
  users :: "(string \<times> user) list"
  socketToUser :: "(string \<times> string) list"
  rooms :: "(string \<times> member list) list"
  next_ref :: nat

definition empty_state :: state where
  "empty_state = \<lparr>users = [], socketToUser = [], rooms = [], next_ref = 0\<rparr>"

text \<open>\<open>Array.from(users.values())\<close>\<close>

definition snapshot :: "state \<Rightarrow> user list" where
  "snapshot s = map snd (users s)"

definition user_json :: "user \<Rightarrow> json" where
  "user_json u = JObj [(''userId'', JStr (userId u)), (''username'', username u),
                       (''socketId'', JStr (socketId u))]"

definition member_json :: "member \<Rightarrow> json" where
  "member_json m = JObj [(''socketId'', JStr (member_socketId m)), (''userInfo'', userInfo m)]"

text \<open>\<open>Set.prototype.add\<close> and \<open>Set.prototype.delete\<close>, by object identity.\<close>

definition set_has :: "member \<Rightarrow> member list \<Rightarrow> bool" where
  "set_has m ms = (mref m \<in> set (map mref ms))"

definition set_add :: "member \<Rightarrow> member list \<Rightarrow> member list" where
  "set_add m ms = (if set_has m ms then ms else ms @ [m])"

definition set_delete :: "member \<Rightarrow> member list \<Rightarrow> member list" where
  "set_delete m ms = filter (\<lambda>x. mref x \<noteq> mref m) ms"

type_synonym result = "js_error + (state \<times> action list)"

section \<open>index.js\<close>

text \<open>
  \<open>register-user\<close> writes both maps, then logs \<open>`User registered: ${username} ...`\<close>,
  then broadcasts: a \<open>username\<close> that has no string ends the handler with a TypeError
  before the broadcast.
\<close>

definition register_user :: "state \<Rightarrow> string \<Rightarrow> string \<Rightarrow> json \<Rightarrow> result" where
  "register_user s sid uid uname =
     (let users' = AList.update uid \<lparr>userId = uid, username = uname, socketId = sid\<rparr> (users s);
          socketToUser' = AList.update sid uid (socketToUser s)
      in if toString_throws uname then Inl TypeError
         else (let userList = map snd users'
               in Inr (s\<lparr>users := users', socketToUser := socketToUser'\<rparr>,
                       [Emit ToAll ''users-updated'' (Some (JArr (map user_json userList)))])))"

text \<open>
  The second log line of \<open>call-user\<close> is \<open>`From: ${callerInfo.username}
  (${callerInfo.id})`\<close>: it throws on a nullish \<open>callerInfo\<close> and when one of the two
  fields has no string. On the found path \<open>targetUser.username\<close> is logged the same way
  before anything is emitted.
\<close>

definition call_user :: "state \<Rightarrow> string \<Rightarrow> string \<Rightarrow> json \<Rightarrow> json \<Rightarrow> result" where
  "call_user s sid targetUserId callerInfo offer =
     (if nullish callerInfo \<or> toString_throws (get_prop callerInfo ''username'')
         \<or> toString_throws (get_prop callerInfo ''id'')
      then Inl TypeError
      else case map_of (users s) targetUserId of
        Some targetUser \<Rightarrow>
          (if toString_throws (username targetUser) then Inl TypeError
           else Inr (s,
            [Emit (To (socketId targetUser)) ''incoming-call''
               (Some (JObj [(''caller'', callerInfo), (''offer'', offer), (''callId'', JStr sid)])),
             Emit (ToSocket sid) ''call-initiated''
               (Some (JObj [(''targetUser'',
                  JObj [(''username'', username targetUser), (''id'', JStr (userId targetUser))])]))]))
      | None \<Rightarrow>
          Inr (s,
            [Emit (ToSocket sid) ''call-failed''
               (Some (JObj [(''error'', JStr ''User not found or offline''),
                            (''targetUserId'', JStr targetUserId)]))]))"

definition answer_call :: "state \<Rightarrow> string \<Rightarrow> string \<Rightarrow> json \<Rightarrow> json \<Rightarrow> result" where
  "answer_call s sid callId answer uinfo =
     (if nullish uinfo \<or> toString_throws (get_prop uinfo ''username'') then Inl TypeError
      else Inr (s, [Emit (To callId) ''call-answered''
                      (Some (JObj [(''answer'', answer), (''userInfo'', uinfo)]))]))"

definition reject_call :: "state \<Rightarrow> string \<Rightarrow> string \<Rightarrow> result" where
  "reject_call s sid callId = Inr (s, [Emit (To callId) ''call-rejected'' None])"

definition end_call :: "state \<Rightarrow> string \<Rightarrow> string \<Rightarrow> result" where
  "end_call s sid targetSocketId =
     (if targetSocketId \<noteq> [] then Inr (s, [Emit (To targetSocketId) ''call-ended'' None])
      else Inr (s, []))"

definition ice_candidate :: "state \<Rightarrow> string \<Rightarrow> string \<Rightarrow> json \<Rightarrow> result" where
  "ice_candidate s sid targetSocketId candidate =
     (if targetSocketId \<noteq> []
      then Inr (s, [Emit (To targetSocketId) ''ice-candidate''
                      (Some (JObj [(''candidate'', candidate), (''fromSocketId'', JStr sid)]))])
      else Inr (s, []))"

text \<open>
  \<open>join-room\<close>: the log line \<open>`User ${userInfo.username} joining room ...`\<close> comes
  first; the member added is a new object, so its identity is fresh.
\<close>

definition join_room :: "state \<Rightarrow> string \<Rightarrow> string \<Rightarrow> json \<Rightarrow> result" where
  "join_room s sid roomId uinfo =
     (if nullish uinfo \<or> toString_throws (get_prop uinfo ''username'') then Inl TypeError
      else
        let rooms1 = (if map_of (rooms s) roomId = None
                      then AList.update roomId [] (rooms s) else rooms s);
            room = (case map_of rooms1 roomId of Some ms \<Rightarrow> ms | None \<Rightarrow> []);
            room' = set_add \<lparr>mref = next_ref s, member_socketId = sid, userInfo = uinfo\<rparr> room;
            roomMembers = room'
        in Inr (s\<lparr>rooms := AList.update roomId room' rooms1, next_ref := Suc (next_ref s)\<rparr>,
                [SocketJoin sid roomId,
                 Emit (ToRoomExceptSender roomId sid) ''user-joined''
                   (Some (JObj [(''socketId'', JStr sid), (''userInfo'', uinfo)])),
                 Emit (ToSocket sid) ''room-members''
                   (Some (JArr (map member_json
                      (filter (\<lambda>m. member_socketId m \<noteq> sid) roomMembers))))]))"

text \<open>
  \<open>roomMembers.forEach(member => { if (member.socketId === socket.id)
  roomMembers.delete(member) })\<close>: the first list is what is left to visit, the second
  the set as it is now; an element deleted before its turn is not visited.
\<close>

fun leave_loop :: "string \<Rightarrow> member list \<Rightarrow> member list \<Rightarrow> member list" where
  "leave_loop sid [] room = room"
| "leave_loop sid (m # todo) room =
     (if set_has m room \<and> member_socketId m = sid
      then leave_loop sid todo (set_delete m room)
      else leave_loop sid todo room)"

definition leave_room :: "state \<Rightarrow> string \<Rightarrow> string \<Rightarrow> result" where
  "leave_room s sid roomId =
     (case map_of (rooms s) roomId of
        Some roomMembers \<Rightarrow>
          Inr (s\<lparr>rooms := AList.update roomId (leave_loop sid roomMembers roomMembers) (rooms s)\<rparr>,
               [SocketLeave sid roomId,
                Emit (ToRoomExceptSender roomId sid) ''user-left''
                  (Some (JObj [(''socketId'', JStr sid)]))])
      | None \<Rightarrow> Inr (s, [SocketLeave sid roomId]))"

definition room_offer :: "state \<Rightarrow> string \<Rightarrow> string \<Rightarrow> string \<Rightarrow> json \<Rightarrow> result" where
  "room_offer s sid roomId targetSocketId offer =
     Inr (s, [Emit (To targetSocketId) ''room-offer''
                (Some (JObj [(''offer'', offer), (''callerSocketId'', JStr sid)]))])"

definition room_answer :: "state \<Rightarrow> string \<Rightarrow> string \<Rightarrow> json \<Rightarrow> result" where
  "room_answer s sid targetSocketId answer =
     Inr (s, [Emit (To targetSocketId) ''room-answer'' (Some (JObj [(''answer'', answer)]))])"

definition room_ice_candidate :: "state \<Rightarrow> string \<Rightarrow> string \<Rightarrow> json \<Rightarrow> result" where
  "room_ice_candidate s sid targetSocketId candidate =
     Inr (s, [Emit (To targetSocketId) ''room-ice-candidate''
                (Some (JObj [(''candidate'', candidate)]))])"

text \<open>
  The inner loop of \<open>disconnect\<close>: as \<open>leave_loop\<close>, with one \<open>user-left\<close> emitted
  for every member deleted.
\<close>

fun disconnect_loop ::
  "string \<Rightarrow> string \<Rightarrow> member list \<Rightarrow> member list \<Rightarrow> member list \<times> action list" where
  "disconnect_loop sid roomId [] room = (room, [])"
| "disconnect_loop sid roomId (m # todo) room =
     (if set_has m room \<and> member_socketId m = sid
      then (let (room', acts) = disconnect_loop sid roomId todo (set_delete m room)
            in (room', Emit (ToRoomExceptSender roomId sid) ''user-left''
                         (Some (JObj [(''socketId'', JStr sid)])) # acts))
      else disconnect_loop sid roomId todo room)"

text \<open>\<open>rooms.forEach((roomMembers, roomId) => ...)\<close>, in the order of the map.\<close>

fun disconnect_rooms ::
  "string \<Rightarrow> (string \<times> member list) list \<Rightarrow> (string \<times> member list) list \<times> action list" where
  "disconnect_rooms sid [] = ([], [])"
| "disconnect_rooms sid ((roomId, roomMembers) # rest) =
     (let (room', acts) = disconnect_loop sid roomId roomMembers roomMembers;
          (rest', acts') = disconnect_rooms sid rest
      in ((roomId, room') # rest', acts @ acts'))"

text \<open>
  \<open>disconnect\<close>: when a row is found, \<open>`Removing user: ${disconnectedUser.username}
  ...`\<close> is logged before \<open>users.delete\<close>.
\<close>

definition disconnect :: "state \<Rightarrow> string \<Rightarrow> result" where
  "disconnect s sid =
     (case (case map_of (socketToUser s) sid of
              Some uid \<Rightarrow>
                (if uid \<noteq> []
                 then (case map_of (users s) uid of
                         Some disconnectedUser \<Rightarrow>
                           (if toString_throws (username disconnectedUser) then Inl TypeError
                            else Inr (AList.delete uid (users s)))
                       | None \<Rightarrow> Inr (users s))
                 else Inr (users s))
            | None \<Rightarrow> Inr (users s)) of
        Inl err \<Rightarrow> Inl err
      | Inr users' \<Rightarrow>
          (let socketToUser' = AList.delete sid (socketToUser s);
               (rooms', acts) = disconnect_rooms sid (rooms s);
               userList = map snd users'
           in Inr (s\<lparr>users := users', socketToUser := socketToUser', rooms := rooms'\<rparr>,
                   acts @ [Emit ToAll ''users-updated'' (Some (JArr (map user_json userList)))])))"

section \<open>The validated variant (first file of src/unnamed/part_000)\<close>

text \<open>Here too the log line \<open>`Registered: ${username} (${userId})`\<close> precedes the broadcast.\<close>

definition register_user_val :: "state \<Rightarrow> string \<Rightarrow> string \<Rightarrow> json \<Rightarrow> result" where
  "register_user_val s sid uid uname =
     (let users' = AList.update uid \<lparr>userId = uid, username = uname, socketId = sid\<rparr> (users s);
          socketToUser' = AList.update sid uid (socketToUser s)
      in if toString_throws uname then Inl TypeError
         else Inr (s\<lparr>users := users', socketToUser := socketToUser'\<rparr>,
                   [Emit ToAll ''users-updated'' (Some (JArr (map user_json (map snd users'))))]))"

text \<open>
  \<open>!callerInfo || !callerInfo.id || !callerInfo.username\<close>: the disjunction stops at
  a falsy \<open>callerInfo\<close>, so no property of a nullish value is read. Neither failure
  path converts a field of the message to a string; the success path logs
  \<open>callerInfo.username\<close>, \<open>callerInfo.id\<close> and \<open>targetUser.username\<close> in template
  literals before it emits.
\<close>

definition invalid_callerInfo :: "json \<Rightarrow> bool" where
  "invalid_callerInfo callerInfo =
     (\<not> truthy callerInfo \<or> \<not> truthy (get_prop callerInfo ''id'')
      \<or> \<not> truthy (get_prop callerInfo ''username''))"

definition call_user_val :: "state \<Rightarrow> string \<Rightarrow> string \<Rightarrow> json \<Rightarrow> json \<Rightarrow> result" where
  "call_user_val s sid targetUserId callerInfo offer =
     (if invalid_callerInfo callerInfo
      then Inr (s, [Emit (ToSocket sid) ''call-failed''
                      (Some (JObj [(''error'', JStr ''Invalid caller information.'')]))])
      else case map_of (users s) targetUserId of
        None \<Rightarrow>
          Inr (s,
            [Emit (ToSocket sid) ''call-failed''
               (Some (JObj [(''error'', JStr ''Target user not found or offline.''),
                            (''targetUserId'', JStr targetUserId)]))])
      | Some targetUser \<Rightarrow>
          (if toString_throws (get_prop callerInfo ''username'')
              \<or> toString_throws (get_prop callerInfo ''id'')
              \<or> toString_throws (username targetUser)
           then Inl TypeError
           else Inr (s,
            [Emit (To (socketId targetUser)) ''incoming-call''
               (Some (JObj [(''caller'', callerInfo), (''offer'', offer), (''callId'', JStr sid)])),
             Emit (ToSocket sid) ''call-initiated''
               (Some (JObj [(''targetUser'',
                  JObj [(''username'', username targetUser), (''id'', JStr (userId targetUser))])]))])))"

text \<open>The log line is \<open>`Call answered by ${userInfo?.username}`\<close>.\<close>

definition answer_call_val :: "state \<Rightarrow> string \<Rightarrow> string \<Rightarrow> json \<Rightarrow> json \<Rightarrow> result" where
  "answer_call_val s sid callId answer uinfo =
     (if toString_throws (if nullish uinfo then JUndefined else get_prop uinfo ''username'')
      then Inl TypeError
      else Inr (s, [Emit (To callId) ''call-answered''
                      (Some (JObj [(''answer'', answer), (''userInfo'', uinfo)]))]))"

definition reject_call_val :: "state \<Rightarrow> string \<Rightarrow> string \<Rightarrow> result" where
  "reject_call_val s sid callId = Inr (s, [Emit (To callId) ''call-rejected'' None])"

definition end_call_val :: "state \<Rightarrow> string \<Rightarrow> string \<Rightarrow> result" where
  "end_call_val s sid targetSocketId = Inr (s, [Emit (To targetSocketId) ''call-ended'' None])"

definition ice_candidate_val :: "state \<Rightarrow> string \<Rightarrow> string \<Rightarrow> json \<Rightarrow> result" where
  "ice_candidate_val s sid targetSocketId candidate =
     Inr (s, [Emit (To targetSocketId) ''ice-candidate''
                (Some (JObj [(''candidate'', candidate), (''fromSocketId'', JStr sid)]))])"

definition join_room_val :: "state \<Rightarrow> string \<Rightarrow> string \<Rightarrow> json \<Rightarrow> result" where
  "join_room_val s sid roomId uinfo =
     (let rooms1 = (if map_of (rooms s) roomId = None
                    then AList.update roomId [] (rooms s) else rooms s);
          room = (case map_of rooms1 roomId of Some ms \<Rightarrow> ms | None \<Rightarrow> []);
          room' = set_add \<lparr>mref = next_ref s, member_socketId = sid, userInfo = uinfo\<rparr> room;
          roomMembers = filter (\<lambda>m. member_socketId m \<noteq> sid) room'
      in Inr (s\<lparr>rooms := AList.update roomId room' rooms1, next_ref := Suc (next_ref s)\<rparr>,
              [SocketJoin sid roomId,
               Emit (ToRoomExceptSender roomId sid) ''user-joined''
                 (Some (JObj [(''socketId'', JStr sid), (''userInfo'', uinfo)])),
               Emit (ToSocket sid) ''room-members'' (Some (JArr (map member_json roomMembers)))]))"

definition leave_room_val :: "state \<Rightarrow> string \<Rightarrow> string \<Rightarrow> result" where
  "leave_room_val s sid roomId =
     (case map_of (rooms s) roomId of
        Some room \<Rightarrow>
          Inr (s\<lparr>rooms := AList.update roomId (leave_loop sid room room) (rooms s)\<rparr>,
               [SocketLeave sid roomId,
                Emit (ToRoomExceptSender roomId sid) ''user-left''
                  (Some (JObj [(''socketId'', JStr sid)]))])
      | None \<Rightarrow> Inr (s, [SocketLeave sid roomId]))"

definition room_offer_val :: "state \<Rightarrow> string \<Rightarrow> string \<Rightarrow> string \<Rightarrow> json \<Rightarrow> result" where
  "room_offer_val s sid roomId targetSocketId offer =
     Inr (s, [Emit (To targetSocketId) ''room-offer''
                (Some (JObj [(''offer'', offer), (''callerSocketId'', JStr sid)]))])"

definition room_answer_val :: "state \<Rightarrow> string \<Rightarrow> string \<Rightarrow> json \<Rightarrow> result" where
  "room_answer_val s sid targetSocketId answer =
     Inr (s, [Emit (To targetSocketId) ''room-answer'' (Some (JObj [(''answer'', answer)]))])"

definition room_ice_candidate_val :: "state \<Rightarrow> string \<Rightarrow> string \<Rightarrow> json \<Rightarrow> result" where
  "room_ice_candidate_val s sid targetSocketId candidate =
     Inr (s, [Emit (To targetSocketId) ''room-ice-candidate''
                (Some (JObj [(''candidate'', candidate)]))])"

text \<open>
  \<open>if (userId)\<close> guards both deletions here: the row and the reverse mapping go only
  when the reverse mapping holds a non-empty \<open>userId\<close> for the socket. After the
  deletions \<open>`Removed user: ${user?.username || 'Unknown'} (${userId})`\<close> is logged,
  before the rooms are cleaned and the snapshot is broadcast.
\<close>

definition disconnect_val :: "state \<Rightarrow> string \<Rightarrow> result" where
  "disconnect_val s sid =
     (case (case map_of (socketToUser s) sid of
              Some uid \<Rightarrow>
                (if uid \<noteq> []
                 then (let shown = (case map_of (users s) uid of
                                      Some user \<Rightarrow>
                                        (if truthy (username user) then username user
                                         else JStr ''Unknown'')
                                    | None \<Rightarrow> JStr ''Unknown'')
                       in if toString_throws shown then Inl TypeError
                          else Inr (AList.delete uid (users s),
                                    AList.delete sid (socketToUser s)))
                 else Inr (users s, socketToUser s))
            | None \<Rightarrow> Inr (users s, socketToUser s)) of
        Inl err \<Rightarrow> Inl err
      | Inr (users', socketToUser') \<Rightarrow>
          (let (rooms', acts) = disconnect_rooms sid (rooms s)
           in Inr (s\<lparr>users := users', socketToUser := socketToUser', rooms := rooms'\<rparr>,
                   acts @ [Emit ToAll ''users-updated''
                             (Some (JArr (map user_json (map snd users'))))])))"

section \<open>The array variant (second file of src/unnamed/part_000)\<close>

record connected_user =
  cu_id :: string
  cu_username :: json
  cu_socketId :: string

definition connected_user_json :: "connected_user \<Rightarrow> json" where
  "connected_user_json u = JObj [(''id'', JStr (cu_id u)), (''username'', cu_username u),
                                 (''socketId'', JStr (cu_socketId u))]"

text \<open>\<open>Array.prototype.findIndex\<close>: the first index whose element satisfies \<open>P\<close>, or -1.\<close>

fun findIndex :: "('a \<Rightarrow> bool) \<Rightarrow> 'a list \<Rightarrow> int" where
  "findIndex P [] = - 1"
| "findIndex P (x # xs) =
     (if P x then 0 else (let i = findIndex P xs in if i < 0 then - 1 else i + 1))"

text \<open>\<open>xs.splice(i, 1)\<close> for an index inside the array.\<close>

definition splice1 :: "nat \<Rightarrow> 'a list \<Rightarrow> 'a list" where
  "splice1 i xs = take i xs @ drop (Suc i) xs"

type_synonym result_arr = "js_error + (connected_user list \<times> action list)"

text \<open>
  Both branches of \<open>register-user\<close> log the \<open>username\<close> of the message in a template
  literal after they changed the array and before the broadcast.
\<close>

definition register_user_arr :: "connected_user list \<Rightarrow> string \<Rightarrow> string \<Rightarrow> json \<Rightarrow> result_arr" where
  "register_user_arr connectedUsers sid uid uname =
     (let newUser = \<lparr>cu_id = uid, cu_username = uname, cu_socketId = sid\<rparr>;
          existingUserIndex = findIndex (\<lambda>u. cu_id u = uid) connectedUsers;
          connectedUsers' =
            (if existingUserIndex > - 1
             then connectedUsers[nat existingUserIndex :=
                    (connectedUsers ! nat existingUserIndex)\<lparr>cu_socketId := sid\<rparr>]
             else connectedUsers @ [newUser])
      in if toString_throws uname then Inl TypeError
         else Inr (connectedUsers',
                   [Emit ToAll ''users-updated''
                      (Some (JArr (map connected_user_json connectedUsers')))]))"

text \<open>
  \<open>disconnect\<close> logs \<open>`Removing user: ${disconnectedUser.username} ...`\<close> between the
  \<open>splice\<close> and the broadcast.
\<close>

definition disconnect_arr :: "connected_user list \<Rightarrow> string \<Rightarrow> result_arr" where
  "disconnect_arr connectedUsers sid =
     (let disconnectedUserIndex = findIndex (\<lambda>u. cu_socketId u = sid) connectedUsers
      in if disconnectedUserIndex > - 1
         then (let disconnectedUser = connectedUsers ! nat disconnectedUserIndex;
                   connectedUsers' = splice1 (nat disconnectedUserIndex) connectedUsers
               in if toString_throws (cu_username disconnectedUser) then Inl TypeError
                  else Inr (connectedUsers',
                            [Emit ToAll ''users-updated''
                               (Some (JArr (map connected_user_json connectedUsers')))]))
         else Inr (connectedUsers, []))"

text \<open>
  The handlers of \<open>signal\<close> and \<open>connect_error\<close> neither read nor write
  \<open>connectedUsers\<close>; they are not part of this development.
\<close>

section \<open>Messages and runs\<close>

datatype message =
    RegisterUser string json
  | CallUser string json json
  | AnswerCall string json json
  | RejectCall string
  | EndCall string
  | IceCandidate string json
  | JoinRoom string json
  | LeaveRoom string
  | RoomOffer string string json
  | RoomAnswer string json
  | RoomIceCandidate string json
  | Disconnect

text \<open>One inbound message of connection \<open>sid\<close>, dispatched to its handler of index.js.\<close>

fun step :: "state \<Rightarrow> string \<times> message \<Rightarrow> result" where
  "step s (sid, RegisterUser uid uname) = register_user s sid uid uname"
| "step s (sid, CallUser targetUserId callerInfo offer) = call_user s sid targetUserId callerInfo offer"
| "step s (sid, AnswerCall callId answer uinfo) = answer_call s sid callId answer uinfo"
| "step s (sid, RejectCall callId) = reject_call s sid callId"
| "step s (sid, EndCall targetSocketId) = end_call s sid targetSocketId"
| "step s (sid, IceCandidate targetSocketId candidate) = ice_candidate s sid targetSocketId candidate"
| "step s (sid, JoinRoom roomId uinfo) = join_room s sid roomId uinfo"
| "step s (sid, LeaveRoom roomId) = leave_room s sid roomId"
| "step s (sid, RoomOffer roomId targetSocketId offer) = room_offer s sid roomId targetSocketId offer"
| "step s (sid, RoomAnswer targetSocketId answer) = room_answer s sid targetSocketId answer"
| "step s (sid, RoomIceCandidate targetSocketId candidate) =
     room_ice_candidate s sid targetSocketId candidate"
| "step s (sid, Disconnect) = disconnect s sid"

text \<open>The same for the validated variant.\<close>

fun step_val :: "state \<Rightarrow> string \<times> message \<Rightarrow> result" where
  "step_val s (sid, RegisterUser uid uname) = register_user_val s sid uid uname"
| "step_val s (sid, CallUser targetUserId callerInfo offer) =
     call_user_val s sid targetUserId callerInfo offer"
| "step_val s (sid, AnswerCall callId answer uinfo) = answer_call_val s sid callId answer uinfo"
| "step_val s (sid, RejectCall callId) = reject_call_val s sid callId"
| "step_val s (sid, EndCall targetSocketId) = end_call_val s sid targetSocketId"
| "step_val s (sid, IceCandidate targetSocketId candidate) =
     ice_candidate_val s sid targetSocketId candidate"
| "step_val s (sid, JoinRoom roomId uinfo) = join_room_val s sid roomId uinfo"
| "step_val s (sid, LeaveRoom roomId) = leave_room_val s sid roomId"
| "step_val s (sid, RoomOffer roomId targetSocketId offer) =
     room_offer_val s sid roomId targetSocketId offer"
| "step_val s (sid, RoomAnswer targetSocketId answer) = room_answer_val s sid targetSocketId answer"
| "step_val s (sid, RoomIceCandidate targetSocketId candidate) =
     room_ice_candidate_val s sid targetSocketId candidate"
| "step_val s (sid, Disconnect) = disconnect_val s sid"

datatype message_arr =
    RegisterUserArr string json
  | DisconnectArr

fun step_arr :: "connected_user list \<Rightarrow> string \<times> message_arr \<Rightarrow> result_arr" where
  "step_arr cus (sid, RegisterUserArr uid uname) = register_user_arr cus sid uid uname"
| "step_arr cus (sid, DisconnectArr) = disconnect_arr cus sid"

text \<open>
  A run handles the messages one after the other, each to completion. Nothing
  catches an exception that escapes a handler: it ends the run, with \<open>Inl\<close> as its
  result. The actions are collected in order.
\<close>

fun run :: "('s \<Rightarrow> 'e \<Rightarrow> js_error + ('s \<times> action list)) \<Rightarrow> 's \<Rightarrow> 'e list
            \<Rightarrow> js_error + ('s \<times> action list)" where
  "run h s [] = Inr (s, [])"
| "run h s (e # es) =
     (case h s e of
        Inl err \<Rightarrow> Inl err
      | Inr (s', acts) \<Rightarrow>
          (case run h s' es of
             Inl err \<Rightarrow> Inl err
           | Inr (s'', acts') \<Rightarrow> Inr (s'', acts @ acts')))"

section \<open>Notions used to state the properties\<close>

text \<open>
  The shape of the registry: one row per key of \<open>users\<close>, every row stored under its
  own \<open>userId\<close>, and one entry per connection in the reverse mapping.
\<close>

definition registry_inv :: "state \<Rightarrow> bool" where
  "registry_inv s =
     (distinct (map fst (users s)) \<and> (\<forall>p \<in> set (users s). userId (snd p) = fst p)
      \<and> distinct (map fst (socketToUser s)))"

text \<open>
  A registration is (connection id, userId, username). Following the words of the
  specification, \<open>last_registration regs u\<close> is the connection id of the most recent
  registration of \<open>u\<close> in the sequence \<open>regs\<close>, if there is one.
\<close>

type_synonym registration = "string \<times> string \<times> json"

fun last_registration :: "registration list \<Rightarrow> string \<Rightarrow> string option" where
  "last_registration [] u = None"
| "last_registration ((c, u', n) # regs) u =
     (case last_registration regs u of
        Some c' \<Rightarrow> Some c'
      | None \<Rightarrow> if u' = u then Some c else None)"

definition register_msg :: "registration \<Rightarrow> string \<times> message" where
  "register_msg r = (case r of (c, u, n) \<Rightarrow> (c, RegisterUser u n))"


section \<open>The registry keeps its shape\<close>

lemma update_key_field:
  "(\<forall>p \<in> set al. f (snd p) = fst p) \<Longrightarrow> f v = k \<Longrightarrow>
   (\<forall>p \<in> set (AList.update k v al). f (snd p) = fst p)"
  by (induction al) (auto split: if_splits)

lemma registry_inv_empty: "registry_inv empty_state"
  by (simp add: registry_inv_def empty_state_def)

lemma register_user_inv:
  assumes "registry_inv s" and "register_user s sid uid uname = Inr (s', acts)"
  shows "registry_inv s'"
proof -
  let ?row = "\<lparr>userId = uid, username = uname, socketId = sid\<rparr>"
  have upd: "users s' = AList.update uid ?row (users s)"
    "socketToUser s' = AList.update sid uid (socketToUser s)"
    using assms(2) by (auto simp: register_user_def Let_def split: if_splits)
  have "\<forall>p \<in> set (AList.update uid ?row (users s)). userId (snd p) = fst p"
    using assms(1) by (intro update_key_field) (simp_all add: registry_inv_def)
  with assms(1) upd show ?thesis
    by (simp add: registry_inv_def distinct_update)
qed

lemma register_user_val_inv:
  assumes "registry_inv s" and "register_user_val s sid uid uname = Inr (s', acts)"
  shows "registry_inv s'"
proof -
  let ?row = "\<lparr>userId = uid, username = uname, socketId = sid\<rparr>"
  have upd: "users s' = AList.update uid ?row (users s)"
    "socketToUser s' = AList.update sid uid (socketToUser s)"
    using assms(2) by (auto simp: register_user_val_def Let_def split: if_splits)
  have "\<forall>p \<in> set (AList.update uid ?row (users s)). userId (snd p) = fst p"
    using assms(1) by (intro update_key_field) (simp_all add: registry_inv_def)
  with assms(1) upd show ?thesis
    by (simp add: registry_inv_def distinct_update)
qed

lemma delete_inv:
  assumes "registry_inv s"
    and "users s' = users s \<or> (\<exists>u. users s' = AList.delete u (users s))"
    and "socketToUser s' = socketToUser s \<or> (\<exists>c. socketToUser s' = AList.delete c (socketToUser s))"
  shows "registry_inv s'"
proof -
  have "distinct (map fst (users s'))"
    using assms(1,2) by (auto simp: registry_inv_def distinct_delete)
  moreover have "\<forall>p \<in> set (users s'). userId (snd p) = fst p"
    using assms(1,2) by (auto simp: registry_inv_def AList.delete_eq)
  moreover have "distinct (map fst (socketToUser s'))"
    using assms(1,3) by (auto simp: registry_inv_def distinct_delete)
  ultimately show ?thesis by (simp add: registry_inv_def)
qed

lemma disconnect_inv:
  assumes "registry_inv s" and "disconnect s sid = Inr (s', acts)"
  shows "registry_inv s'"
proof (rule delete_inv[OF assms(1)])
  show "users s' = users s \<or> (\<exists>u. users s' = AList.delete u (users s))"
    using assms(2)
    by (auto simp: disconnect_def Let_def split: option.splits if_splits prod.splits sum.splits)
  show "socketToUser s' = socketToUser s \<or> (\<exists>c. socketToUser s' = AList.delete c (socketToUser s))"
    using assms(2)
    by (auto simp: disconnect_def Let_def split: option.splits if_splits prod.splits sum.splits)
qed

lemma disconnect_val_inv:
  assumes "registry_inv s" and "disconnect_val s sid = Inr (s', acts)"
  shows "registry_inv s'"
proof (rule delete_inv[OF assms(1)])
  show "users s' = users s \<or> (\<exists>u. users s' = AList.delete u (users s))"
    using assms(2)
    by (auto simp: disconnect_val_def Let_def split: option.splits if_splits prod.splits sum.splits)
  show "socketToUser s' = socketToUser s \<or> (\<exists>c. socketToUser s' = AList.delete c (socketToUser s))"
    using assms(2)
    by (auto simp: disconnect_val_def Let_def split: option.splits if_splits prod.splits sum.splits)
qed

lemma step_inv:
  "registry_inv s \<Longrightarrow> step s e = Inr (s', acts) \<Longrightarrow> registry_inv s'"
proof (cases e)
  case (Pair sid msg)
  assume inv: "registry_inv s" and st: "step s e = Inr (s', acts)"
  show ?thesis
  proof (cases msg)
    case (RegisterUser uid uname)
    with Pair st inv show ?thesis by (auto dest: register_user_inv)
  next
    case Disconnect
    with Pair st inv show ?thesis by (auto dest: disconnect_inv)
  next
    case (JoinRoom r ui)
    with Pair st inv show ?thesis
      by (auto simp: join_room_def registry_inv_def Let_def split: if_splits)
  next
    case (LeaveRoom r)
    with Pair st inv show ?thesis
      by (auto simp: leave_room_def registry_inv_def split: option.splits)
  qed (use Pair st inv in \<open>auto simp: call_user_def answer_call_def reject_call_def end_call_def
        ice_candidate_def room_offer_def room_answer_def room_ice_candidate_def
        split: if_splits option.splits\<close>)
qed

lemma step_val_inv:
  "registry_inv s \<Longrightarrow> step_val s e = Inr (s', acts) \<Longrightarrow> registry_inv s'"
proof (cases e)
  case (Pair sid msg)
  assume inv: "registry_inv s" and st: "step_val s e = Inr (s', acts)"
  show ?thesis
  proof (cases msg)
    case (RegisterUser uid uname)
    with Pair st inv show ?thesis by (auto dest: register_user_val_inv)
  next
    case Disconnect
    with Pair st inv show ?thesis by (auto dest: disconnect_val_inv)
  next
    case (JoinRoom r ui)
    with Pair st inv show ?thesis
      by (auto simp: join_room_val_def registry_inv_def Let_def split: if_splits)
  next
    case (LeaveRoom r)
    with Pair st inv show ?thesis
      by (auto simp: leave_room_val_def registry_inv_def split: option.splits)
  qed (use Pair st inv in \<open>auto simp: call_user_val_def answer_call_val_def reject_call_val_def
        end_call_val_def ice_candidate_val_def room_offer_val_def room_answer_val_def
        room_ice_candidate_val_def split: if_splits option.splits\<close>)
qed

lemma run_step_inv:
  "registry_inv s \<Longrightarrow> run step s es = Inr (s', acts) \<Longrightarrow> registry_inv s'"
proof (induction es arbitrary: s acts)
  case Nil
  then show ?case by simp
next
  case (Cons e es)
  then show ?case
    by (auto split: sum.splits prod.splits dest: step_inv)
qed

lemma run_step_val_inv:
  "registry_inv s \<Longrightarrow> run step_val s es = Inr (s', acts) \<Longrightarrow> registry_inv s'"
proof (induction es arbitrary: s acts)
  case Nil
  then show ?case by simp
next
  case (Cons e es)
  then show ?case
    by (auto split: sum.splits prod.splits dest: step_val_inv)
qed

lemma snapshot_userIds:
  "(\<forall>p \<in> set (users s). userId (snd p) = fst p) \<Longrightarrow> map userId (snapshot s) = map fst (users s)"
  by (auto simp: snapshot_def)

section \<open>Calls to a user that is not registered\<close>

text \<open>
  The validated variant answers a \<open>call-user\<close> whose \<open>callerInfo\<close> has no
  \<open>username\<close> with a \<open>call-failed\<close> that carries no \<open>targetUserId\<close>, also when
  the target is not registered. index.js throws in its log line, before any emission,
  when \<open>callerInfo\<close> is absent or when its \<open>username\<close> has no string.
\<close>

theorem call_user_invalid_caller_counterexample:
  "map_of (users empty_state) ''ghost'' = None
   \<and> call_user_val empty_state ''c1'' ''ghost'' (JObj [(''id'', JStr ''u1'')]) (JStr ''sdp'') =
       Inr (empty_state,
            [Emit (ToSocket ''c1'') ''call-failed''
               (Some (JObj [(''error'', JStr ''Invalid caller information.'')]))])
   \<and> call_user empty_state ''c1'' ''ghost'' JUndefined (JStr ''sdp'') = Inl TypeError
   \<and> call_user empty_state ''c1'' ''ghost''
         (JObj [(''id'', JStr ''u1''), (''username'', JObj [(''toString'', JNum 1)])])
         (JStr ''sdp'') = Inl TypeError"
  by (simp add: call_user_val_def call_user_def invalid_callerInfo_def empty_state_def)

lemma truthy_not_nullish: "truthy v \<Longrightarrow> \<not> nullish v"
  by (cases v) simp_all

text \<open>
  Claim C1, as amended. When \<open>targetUserId\<close> is not in the registry and
  \<open>callerInfo\<close> has a truthy \<open>id\<close> and \<open>username\<close>, \<open>call-user\<close> of the validated
  variant leaves the state as it is and makes exactly one emission: a \<open>call-failed\<close>
  sent with \<open>socket.emit\<close> to the calling connection, whose payload holds the requested
  \<open>targetUserId\<close>. Nothing is sent with \<open>io.to\<close>, so no \<open>incoming-call\<close> and no
  \<open>call-initiated\<close>. index.js does the same whenever that \<open>id\<close> and \<open>username\<close> have
  a string for its log line.
\<close>

theorem call_user_target_not_found:
  assumes "map_of (users s) targetUserId = None"
    and "\<not> invalid_callerInfo callerInfo"
  shows "(\<not> toString_throws (get_prop callerInfo ''username'')
          \<and> \<not> toString_throws (get_prop callerInfo ''id'') \<longrightarrow>
          call_user s sid targetUserId callerInfo offer =
            Inr (s, [Emit (ToSocket sid) ''call-failed''
                       (Some (JObj [(''error'', JStr ''User not found or offline''),
                                    (''targetUserId'', JStr targetUserId)]))]))
       \<and> call_user_val s sid targetUserId callerInfo offer =
           Inr (s, [Emit (ToSocket sid) ''call-failed''
                      (Some (JObj [(''error'', JStr ''Target user not found or offline.''),
                                   (''targetUserId'', JStr targetUserId)]))])"
proof -
  have "\<not> nullish callerInfo"
    using assms(2) by (auto simp: invalid_callerInfo_def dest: truthy_not_nullish)
  with assms show ?thesis
    by (simp add: call_user_def call_user_val_def)
qed

theorem call_user_target_not_found_witness:
  "map_of (users empty_state) ''ghost'' = None
   \<and> \<not> invalid_callerInfo (JObj [(''id'', JStr ''u1''), (''username'', JStr ''A'')])
   \<and> \<not> toString_throws (get_prop (JObj [(''id'', JStr ''u1''), (''username'', JStr ''A'')])
                           ''username'')
   \<and> \<not> toString_throws (get_prop (JObj [(''id'', JStr ''u1''), (''username'', JStr ''A'')])
                           ''id'')
   \<and> call_user empty_state ''c1'' ''ghost''
         (JObj [(''id'', JStr ''u1''), (''username'', JStr ''A'')]) (JStr ''sdp'') =
       Inr (empty_state,
            [Emit (ToSocket ''c1'') ''call-failed''
               (Some (JObj [(''error'', JStr ''User not found or offline''),
                            (''targetUserId'', JStr ''ghost'')]))])
   \<and> call_user_val empty_state ''c1'' ''ghost''
         (JObj [(''id'', JStr ''u1''), (''username'', JStr ''A'')]) (JStr ''sdp'') =
       Inr (empty_state,
            [Emit (ToSocket ''c1'') ''call-failed''
               (Some (JObj [(''error'', JStr ''Target user not found or offline.''),
                            (''targetUserId'', JStr ''ghost'')]))])"
proof -
  have absent: "map_of (users empty_state) ''ghost'' = None"
    by (simp add: empty_state_def)
  have ok: "\<not> invalid_callerInfo (JObj [(''id'', JStr ''u1''), (''username'', JStr ''A'')])"
    by (simp add: invalid_callerInfo_def)
  show ?thesis
    using absent ok call_user_target_not_found[OF absent ok, of "''c1''" "JStr ''sdp''"]
    by simp
qed

section \<open>The registry invariant\<close>

text \<open>
  A connection that registers under two user ids leaves two rows with its connection
  id in \<open>users\<close>; only the reverse mapping keeps one user id per connection.
\<close>

theorem one_connection_two_rows_counterexample:
  "run step empty_state
     [(''c1'', RegisterUser ''u1'' (JStr ''Alice'')), (''c1'', RegisterUser ''u2'' (JStr ''Bob''))]
     = Inr (\<lparr>users = [(''u1'', \<lparr>userId = ''u1'', username = JStr ''Alice'', socketId = ''c1''\<rparr>),
                      (''u2'', \<lparr>userId = ''u2'', username = JStr ''Bob'', socketId = ''c1''\<rparr>)],
             socketToUser = [(''c1'', ''u2'')], rooms = [], next_ref = 0\<rparr>,
            [Emit ToAll ''users-updated''
               (Some (JArr [JObj [(''userId'', JStr ''u1''), (''username'', JStr ''Alice''),
                                  (''socketId'', JStr ''c1'')]])),
             Emit ToAll ''users-updated''
               (Some (JArr [JObj [(''userId'', JStr ''u1''), (''username'', JStr ''Alice''),
                                  (''socketId'', JStr ''c1'')],
                            JObj [(''userId'', JStr ''u2''), (''username'', JStr ''Bob''),
                                  (''socketId'', JStr ''c1'')]]))])
   \<and> run step_val empty_state
     [(''c1'', RegisterUser ''u1'' (JStr ''Alice'')), (''c1'', RegisterUser ''u2'' (JStr ''Bob''))]
     = Inr (\<lparr>users = [(''u1'', \<lparr>userId = ''u1'', username = JStr ''Alice'', socketId = ''c1''\<rparr>),
                      (''u2'', \<lparr>userId = ''u2'', username = JStr ''Bob'', socketId = ''c1''\<rparr>)],
             socketToUser = [(''c1'', ''u2'')], rooms = [], next_ref = 0\<rparr>,
            [Emit ToAll ''users-updated''
               (Some (JArr [JObj [(''userId'', JStr ''u1''), (''username'', JStr ''Alice''),
                                  (''socketId'', JStr ''c1'')]])),
             Emit ToAll ''users-updated''
               (Some (JArr [JObj [(''userId'', JStr ''u1''), (''username'', JStr ''Alice''),
                                  (''socketId'', JStr ''c1'')],
                            JObj [(''userId'', JStr ''u2''), (''username'', JStr ''Bob''),
                                  (''socketId'', JStr ''c1'')]]))])"
  by (simp add: register_user_def register_user_val_def empty_state_def user_json_def)

text \<open>
  Claim C3, as amended. In every state reached from the empty one by any sequence of
  messages (registrations and disconnections among them), the snapshot holds at most
  one row per \<open>userId\<close>, every row is stored under its own \<open>userId\<close>, and the
  reverse mapping \<open>socketToUser\<close> binds at most one \<open>userId\<close> to a connection id.
  This holds for index.js and for the validated variant.
\<close>

theorem registry_invariant:
  "(run step empty_state evts = Inr (s, acts) \<longrightarrow>
      distinct (map userId (snapshot s)) \<and> (\<forall>p \<in> set (users s). userId (snd p) = fst p)
      \<and> distinct (map fst (socketToUser s)))
   \<and> (run step_val empty_state evts = Inr (s, acts) \<longrightarrow>
      distinct (map userId (snapshot s)) \<and> (\<forall>p \<in> set (users s). userId (snd p) = fst p)
      \<and> distinct (map fst (socketToUser s)))"
proof (intro conjI impI)
  assume "run step empty_state evts = Inr (s, acts)"
  then have "registry_inv s"
    using run_step_inv[OF registry_inv_empty] by blast
  then show "distinct (map userId (snapshot s))" "\<forall>p \<in> set (users s). userId (snd p) = fst p"
    "distinct (map fst (socketToUser s))"
    by (simp_all add: registry_inv_def snapshot_userIds)
next
  assume "run step_val empty_state evts = Inr (s, acts)"
  then have "registry_inv s"
    using run_step_val_inv[OF registry_inv_empty] by blast
  then show "distinct (map userId (snapshot s))" "\<forall>p \<in> set (users s). userId (snd p) = fst p"
    "distinct (map fst (socketToUser s))"
    by (simp_all add: registry_inv_def snapshot_userIds)
qed

theorem registry_invariant_witness:
  "run step empty_state [(''c1'', RegisterUser ''u1'' (JStr ''Alice'')), (''c2'', RegisterUser ''u1'' (JStr ''Alice2''))]
     = Inr (\<lparr>users = [(''u1'', \<lparr>userId = ''u1'', username = JStr ''Alice2'', socketId = ''c2''\<rparr>)],
             socketToUser = [(''c1'', ''u1''), (''c2'', ''u1'')], rooms = [], next_ref = 0\<rparr>,
            [Emit ToAll ''users-updated'' (Some (JArr [JObj [(''userId'', JStr ''u1''), (''username'', JStr ''Alice''), (''socketId'', JStr ''c1'')]])),
             Emit ToAll ''users-updated'' (Some (JArr [JObj [(''userId'', JStr ''u1''), (''username'', JStr ''Alice2''), (''socketId'', JStr ''c2'')]]))])
   \<and> run step_val empty_state [(''c1'', RegisterUser ''u1'' (JStr ''Alice'')), (''c2'', RegisterUser ''u1'' (JStr ''Alice2''))]
     = Inr (\<lparr>users = [(''u1'', \<lparr>userId = ''u1'', username = JStr ''Alice2'', socketId = ''c2''\<rparr>)],
             socketToUser = [(''c1'', ''u1''), (''c2'', ''u1'')], rooms = [], next_ref = 0\<rparr>,
            [Emit ToAll ''users-updated'' (Some (JArr [JObj [(''userId'', JStr ''u1''), (''username'', JStr ''Alice''), (''socketId'', JStr ''c1'')]])),
             Emit ToAll ''users-updated'' (Some (JArr [JObj [(''userId'', JStr ''u1''), (''username'', JStr ''Alice2''), (''socketId'', JStr ''c2'')]]))])
   \<and> distinct (map userId (snapshot \<lparr>users = [(''u1'', \<lparr>userId = ''u1'', username = JStr ''Alice2'', socketId = ''c2''\<rparr>)],
             socketToUser = [(''c1'', ''u1''), (''c2'', ''u1'')], rooms = [], next_ref = 0\<rparr>))
   \<and> distinct (map fst (socketToUser \<lparr>users = [(''u1'', \<lparr>userId = ''u1'', username = JStr ''Alice2'', socketId = ''c2''\<rparr>)],
             socketToUser = [(''c1'', ''u1''), (''c2'', ''u1'')], rooms = [], next_ref = 0\<rparr>))"
proof -
  let ?evts = "[(''c1'', RegisterUser ''u1'' (JStr ''Alice'')), (''c2'', RegisterUser ''u1'' (JStr ''Alice2''))]"
  let ?s = "\<lparr>users = [(''u1'', \<lparr>userId = ''u1'', username = JStr ''Alice2'', socketId = ''c2''\<rparr>)],
             socketToUser = [(''c1'', ''u1''), (''c2'', ''u1'')], rooms = [], next_ref = 0\<rparr>"
  let ?acts = "[Emit ToAll ''users-updated'' (Some (JArr [JObj [(''userId'', JStr ''u1''), (''username'', JStr ''Alice''), (''socketId'', JStr ''c1'')]])),
             Emit ToAll ''users-updated'' (Some (JArr [JObj [(''userId'', JStr ''u1''), (''username'', JStr ''Alice2''), (''socketId'', JStr ''c2'')]]))]"
  have r1: "run step empty_state ?evts = Inr (?s, ?acts)"
    by (simp add: register_user_def empty_state_def user_json_def)
  have r2: "run step_val empty_state ?evts = Inr (?s, ?acts)"
    by (simp add: register_user_val_def empty_state_def user_json_def)
  show ?thesis
    using r1 r2 registry_invariant[of ?evts ?s ?acts] by simp
qed

section \<open>Sequences of registrations\<close>

lemma run_registers:
  "list_all (\<lambda>(c, u, n). \<not> toString_throws n) regs \<Longrightarrow>
   \<exists>s' acts. run step s (map register_msg regs) = Inr (s', acts)
     \<and> (\<forall>u. map_option socketId (map_of (users s') u) =
           (case last_registration regs u of
              Some c \<Rightarrow> Some c
            | None \<Rightarrow> map_option socketId (map_of (users s) u)))
     \<and> fst ` set (users s') = fst ` set (users s) \<union> (\<lambda>(c, u, n). u) ` set regs
     \<and> (regs \<noteq> [] \<longrightarrow>
          last acts = Emit ToAll ''users-updated'' (Some (JArr (map user_json (snapshot s')))))"
proof (induction regs arbitrary: s)
  case Nil
  then show ?case by simp
next
  case (Cons r regs)
  obtain c u n where r: "r = (c, u, n)" by (cases r)
  let ?s1 = "s\<lparr>users := AList.update u \<lparr>userId = u, username = n, socketId = c\<rparr> (users s),
               socketToUser := AList.update c u (socketToUser s)\<rparr>"
  let ?a1 = "[Emit ToAll ''users-updated'' (Some (JArr (map user_json (snapshot ?s1))))]"
  have pr: "\<not> toString_throws n" and prs: "list_all (\<lambda>(c, u, n). \<not> toString_throws n) regs"
    using Cons.prems by (simp_all add: r)
  have st: "step s (register_msg r) = Inr (?s1, ?a1)"
    using pr by (simp add: r register_msg_def register_user_def Let_def snapshot_def)
  from Cons.IH[OF prs, of ?s1] obtain s' acts where
    run: "run step ?s1 (map register_msg regs) = Inr (s', acts)" and
    look: "\<forall>x. map_option socketId (map_of (users s') x) =
           (case last_registration regs x of
              Some c \<Rightarrow> Some c
            | None \<Rightarrow> map_option socketId (map_of (users ?s1) x))" and
    keys: "fst ` set (users s') = fst ` set (users ?s1) \<union> (\<lambda>(c, u, n). u) ` set regs" and
    lst: "regs \<noteq> [] \<longrightarrow>
          last acts = Emit ToAll ''users-updated'' (Some (JArr (map user_json (snapshot s'))))"
    by blast
  have "run step s (map register_msg (r # regs)) = Inr (s', ?a1 @ acts)"
    using st run by simp
  moreover have "\<forall>x. map_option socketId (map_of (users s') x) =
           (case last_registration (r # regs) x of
              Some c \<Rightarrow> Some c
            | None \<Rightarrow> map_option socketId (map_of (users s) x))"
    using look by (auto simp: r update_conv' split: option.splits)
  moreover have "fst ` set (users s') = fst ` set (users s) \<union> (\<lambda>(c, u, n). u) ` set (r # regs)"
    using keys by (auto simp: r dom_update)
  moreover have "last (?a1 @ acts) = Emit ToAll ''users-updated'' (Some (JArr (map user_json (snapshot s'))))"
  proof (cases regs)
    case Nil
    with run show ?thesis by simp
  next
    case (Cons r' regs')
    with lst have l: "last acts = Emit ToAll ''users-updated'' (Some (JArr (map user_json (snapshot s'))))"
      by simp
    have "acts \<noteq> []"
      using run Cons
      by (auto simp: register_msg_def register_user_def Let_def
            split: sum.splits prod.splits if_splits)
    with l show ?thesis by simp
  qed
  ultimately show ?case by blast
qed

lemma run_registers_returns:
  "run step s (map register_msg regs) = Inr (s', acts) \<Longrightarrow>
   list_all (\<lambda>(c, u, n). \<not> toString_throws n) regs"
proof (induction regs arbitrary: s acts)
  case Nil
  then show ?case by simp
next
  case (Cons r regs)
  obtain c u n where r: "r = (c, u, n)" by (cases r)
  have m: "register_msg r = (c, RegisterUser u n)"
    by (simp add: r register_msg_def)
  from Cons.prems obtain s1 a1 acts1 where
    st: "register_user s c u n = Inr (s1, a1)" and
    run: "run step s1 (map register_msg regs) = Inr (s', acts1)"
    by (auto simp: m split: sum.splits prod.splits)
  have "\<not> toString_throws n"
    using st by (auto simp: register_user_def Let_def split: if_splits)
  with Cons.IH[OF run] show ?case by (simp add: r)
qed

lemma register_user_val_eq: "register_user_val s sid uid uname = register_user s sid uid uname"
  by (simp add: register_user_val_def register_user_def Let_def)

lemma run_registers_val:
  "run step_val s (map register_msg regs) = run step s (map register_msg regs)"
  by (induction regs arbitrary: s)
     (auto simp: register_msg_def register_user_val_eq split: sum.splits prod.splits)

lemma findIndex_neg: "findIndex P xs < 0 \<longleftrightarrow> (\<forall>x \<in> set xs. \<not> P x)"
  by (induction xs) (auto simp: Let_def)

lemma findIndex_nonneg:
  "0 \<le> findIndex P xs \<Longrightarrow> nat (findIndex P xs) < length xs \<and> P (xs ! nat (findIndex P xs))"
proof (induction xs)
  case Nil
  then show ?case by simp
next
  case (Cons x xs)
  show ?case
  proof (cases "P x")
    case True
    then show ?thesis by simp
  next
    case False
    with Cons.prems have nn: "0 \<le> findIndex P xs"
      by (auto simp: Let_def split: if_splits)
    with Cons.IH have "nat (findIndex P xs) < length xs" "P (xs ! nat (findIndex P xs))"
      by simp_all
    with False nn show ?thesis
      by (simp add: Let_def nat_add_distrib)
  qed
qed








section \<open>Registration is never refused\<close>

text \<open>
  No handler of \<open>register-user\<close> looks at \<open>userId\<close>: a registration with the empty
  \<open>userId\<close> changes the registry and is broadcast like any other. What can end a
  registration is its log line, when the \<open>username\<close> has no string.
\<close>

theorem register_empty_userId_counterexample:
  "register_user empty_state ''c1'' [] (JStr ''Alice'') =
     Inr (\<lparr>users = [([], \<lparr>userId = [], username = JStr ''Alice'', socketId = ''c1''\<rparr>)],
            socketToUser = [(''c1'', [])], rooms = [], next_ref = 0\<rparr>,
          [Emit ToAll ''users-updated''
             (Some (JArr [JObj [(''userId'', JStr []), (''username'', JStr ''Alice''),
                                (''socketId'', JStr ''c1'')]]))])
   \<and> register_user_val empty_state ''c1'' [] (JStr ''Alice'') =
     Inr (\<lparr>users = [([], \<lparr>userId = [], username = JStr ''Alice'', socketId = ''c1''\<rparr>)],
            socketToUser = [(''c1'', [])], rooms = [], next_ref = 0\<rparr>,
          [Emit ToAll ''users-updated''
             (Some (JArr [JObj [(''userId'', JStr []), (''username'', JStr ''Alice''),
                                (''socketId'', JStr ''c1'')]]))])
   \<and> register_user empty_state ''c1'' ''u1'' (JObj [(''toString'', JNum 1)]) = Inl TypeError
   \<and> register_user_val empty_state ''c1'' ''u1'' (JObj [(''toString'', JNum 1)]) = Inl TypeError
   \<and> register_user_arr [] ''c1'' ''u1'' (JObj [(''toString'', JNum 1)]) = Inl TypeError"
  by (simp add: register_user_def register_user_val_def register_user_arr_def empty_state_def
        user_json_def Let_def)

lemma filter_update_other:
  "filter (\<lambda>p. fst p \<noteq> k) (AList.update k v al) = filter (\<lambda>p. fst p \<noteq> k) al"
  by (induction al) auto

lemma filter_list_update_out:
  "i < length xs \<Longrightarrow> \<not> P (xs ! i) \<Longrightarrow> \<not> P x \<Longrightarrow> filter P (xs[i := x]) = filter P xs"
proof (induction xs arbitrary: i)
  case Nil
  then show ?case by simp
next
  case (Cons y ys)
  then show ?case by (cases i) auto
qed

lemma register_user_arr_has_row:
  assumes "\<not> toString_throws uname"
  shows "\<exists>cus'. register_user_arr cus sid uid uname =
        Inr (cus', [Emit ToAll ''users-updated'' (Some (JArr (map connected_user_json cus')))])
     \<and> (\<exists>row \<in> set cus'. cu_id row = uid \<and> cu_socketId row = sid)
     \<and> filter (\<lambda>r. cu_id r \<noteq> uid) cus' = filter (\<lambda>r. cu_id r \<noteq> uid) cus
     \<and> map cu_id cus' =
         (if uid \<in> set (map cu_id cus) then map cu_id cus else map cu_id cus @ [uid])"
proof (cases "0 \<le> findIndex (\<lambda>x. cu_id x = uid) cus")
  case True
  let ?i = "nat (findIndex (\<lambda>x. cu_id x = uid) cus)"
  from findIndex_nonneg[OF True] have i: "?i < length cus" and idu: "cu_id (cus ! ?i) = uid"
    by simp_all
  let ?new = "(cus ! ?i)\<lparr>cu_socketId := sid\<rparr>"
  let ?cus' = "cus[?i := ?new]"
  have 1: "register_user_arr cus sid uid uname =
        Inr (?cus', [Emit ToAll ''users-updated'' (Some (JArr (map connected_user_json ?cus')))])"
    using True assms by (simp add: register_user_arr_def Let_def)
  have "?new \<in> set ?cus'"
    using i by (simp add: set_update_memI)
  moreover have "cu_id ?new = uid \<and> cu_socketId ?new = sid"
    using idu by simp
  ultimately have 2: "\<exists>row \<in> set ?cus'. cu_id row = uid \<and> cu_socketId row = sid"
    by (rule bexI[rotated])
  have 3: "filter (\<lambda>r. cu_id r \<noteq> uid) ?cus' = filter (\<lambda>r. cu_id r \<noteq> uid) cus"
    using i idu by (intro filter_list_update_out) simp_all
  have ids: "map cu_id ?cus' = map cu_id cus"
    using i idu by (simp add: map_update list_update_same_conv)
  have mem: "uid \<in> set (map cu_id cus)"
    using i idu by (metis length_map nth_map nth_mem)
  have 4: "map cu_id ?cus' =
         (if uid \<in> set (map cu_id cus) then map cu_id cus else map cu_id cus @ [uid])"
    using ids mem by (simp only: if_True)
  from 1 2 3 4 show ?thesis
    by (intro exI[of _ ?cus'] conjI)
next
  case False
  then have none: "\<forall>x \<in> set cus. cu_id x \<noteq> uid"
    using findIndex_neg[of "\<lambda>x. cu_id x = uid" cus] by simp
  let ?new = "\<lparr>cu_id = uid, cu_username = uname, cu_socketId = sid\<rparr>"
  let ?cus' = "cus @ [?new]"
  have 1: "register_user_arr cus sid uid uname =
        Inr (?cus', [Emit ToAll ''users-updated'' (Some (JArr (map connected_user_json ?cus')))])"
    using False assms by (simp add: register_user_arr_def Let_def)
  have 2: "\<exists>row \<in> set ?cus'. cu_id row = uid \<and> cu_socketId row = sid"
    by simp
  have 3: "filter (\<lambda>r. cu_id r \<noteq> uid) ?cus' = filter (\<lambda>r. cu_id r \<noteq> uid) cus"
    by simp
  have nmem: "uid \<notin> set (map cu_id cus)"
    using none by auto
  have 4: "map cu_id ?cus' =
         (if uid \<in> set (map cu_id cus) then map cu_id cus else map cu_id cus @ [uid])"
    using nmem by simp
  from 1 2 3 4 show ?thesis
    by (intro exI[of _ ?cus'] conjI)
qed

text \<open>
  Claim C4, as amended. Every \<open>register-user\<close> whose \<open>username\<close> has a string, whatever
  its \<open>userId\<close> (the empty one included), succeeds: the row of \<open>userId\<close> is the new one,
  the reverse mapping binds the connection to \<open>userId\<close>, every other row and every
  other binding stays as it was and where it was (a new key goes to the end, a key that
  was there keeps its place and is not repeated), the rooms are untouched, and the only
  emission is one \<open>users-updated\<close> to every connection with the new snapshot. No failure
  event is sent. The validated variant does the same, and the array variant ends with
  an entry of that \<open>id\<close> on the registering connection and its other entries unchanged.
\<close>

theorem register_user_no_validation:
  assumes "\<not> toString_throws uname"
  shows "(\<exists>s'. register_user s sid uid uname =
        Inr (s', [Emit ToAll ''users-updated'' (Some (JArr (map user_json (snapshot s'))))])
      \<and> map_of (users s') uid = Some \<lparr>userId = uid, username = uname, socketId = sid\<rparr>
      \<and> map_of (socketToUser s') sid = Some uid
      \<and> filter (\<lambda>p. fst p \<noteq> uid) (users s') = filter (\<lambda>p. fst p \<noteq> uid) (users s)
      \<and> filter (\<lambda>p. fst p \<noteq> sid) (socketToUser s')
          = filter (\<lambda>p. fst p \<noteq> sid) (socketToUser s)
      \<and> map fst (users s') =
          (if uid \<in> set (map fst (users s)) then map fst (users s)
           else map fst (users s) @ [uid])
      \<and> map fst (socketToUser s') =
          (if sid \<in> set (map fst (socketToUser s)) then map fst (socketToUser s)
           else map fst (socketToUser s) @ [sid])
      \<and> rooms s' = rooms s \<and> next_ref s' = next_ref s)
   \<and> register_user_val s sid uid uname = register_user s sid uid uname
   \<and> (\<exists>cus'. register_user_arr cus sid uid uname =
        Inr (cus', [Emit ToAll ''users-updated'' (Some (JArr (map connected_user_json cus')))])
      \<and> (\<exists>row \<in> set cus'. cu_id row = uid \<and> cu_socketId row = sid)
      \<and> filter (\<lambda>r. cu_id r \<noteq> uid) cus' = filter (\<lambda>r. cu_id r \<noteq> uid) cus
      \<and> map cu_id cus' =
          (if uid \<in> set (map cu_id cus) then map cu_id cus else map cu_id cus @ [uid]))"
proof (intro conjI)
  show "\<exists>s'. register_user s sid uid uname =
        Inr (s', [Emit ToAll ''users-updated'' (Some (JArr (map user_json (snapshot s'))))])
      \<and> map_of (users s') uid = Some \<lparr>userId = uid, username = uname, socketId = sid\<rparr>
      \<and> map_of (socketToUser s') sid = Some uid
      \<and> filter (\<lambda>p. fst p \<noteq> uid) (users s') = filter (\<lambda>p. fst p \<noteq> uid) (users s)
      \<and> filter (\<lambda>p. fst p \<noteq> sid) (socketToUser s')
          = filter (\<lambda>p. fst p \<noteq> sid) (socketToUser s)
      \<and> map fst (users s') =
          (if uid \<in> set (map fst (users s)) then map fst (users s)
           else map fst (users s) @ [uid])
      \<and> map fst (socketToUser s') =
          (if sid \<in> set (map fst (socketToUser s)) then map fst (socketToUser s)
           else map fst (socketToUser s) @ [sid])
      \<and> rooms s' = rooms s \<and> next_ref s' = next_ref s"
    using assms
    by (simp add: register_user_def Let_def snapshot_def update_conv' filter_update_other
          update_keys)
  show "register_user_val s sid uid uname = register_user s sid uid uname"
    by (rule register_user_val_eq)
  show "\<exists>cus'. register_user_arr cus sid uid uname =
        Inr (cus', [Emit ToAll ''users-updated'' (Some (JArr (map connected_user_json cus')))])
      \<and> (\<exists>row \<in> set cus'. cu_id row = uid \<and> cu_socketId row = sid)
      \<and> filter (\<lambda>r. cu_id r \<noteq> uid) cus' = filter (\<lambda>r. cu_id r \<noteq> uid) cus
      \<and> map cu_id cus' =
          (if uid \<in> set (map cu_id cus) then map cu_id cus else map cu_id cus @ [uid])"
    using assms by (rule register_user_arr_has_row)
qed

theorem register_user_no_validation_witness:
  "\<not> toString_throws (JArr [])
   \<and> register_user
       \<lparr>users = [(''u2'', \<lparr>userId = ''u2'', username = JStr ''B'', socketId = ''c2''\<rparr>)],
        socketToUser = [(''c2'', ''u2'')], rooms = [], next_ref = 0\<rparr> ''c1'' [] (JArr []) =
     Inr (\<lparr>users = [(''u2'', \<lparr>userId = ''u2'', username = JStr ''B'', socketId = ''c2''\<rparr>),
                    ([], \<lparr>userId = [], username = JArr [], socketId = ''c1''\<rparr>)],
            socketToUser = [(''c2'', ''u2''), (''c1'', [])], rooms = [], next_ref = 0\<rparr>,
          [Emit ToAll ''users-updated''
             (Some (JArr [JObj [(''userId'', JStr ''u2''), (''username'', JStr ''B''),
                                (''socketId'', JStr ''c2'')],
                          JObj [(''userId'', JStr []), (''username'', JArr []),
                                (''socketId'', JStr ''c1'')]]))])
   \<and> register_user_arr [\<lparr>cu_id = ''u2'', cu_username = JStr ''B'', cu_socketId = ''c2''\<rparr>]
       ''c1'' [] (JArr []) =
     Inr ([\<lparr>cu_id = ''u2'', cu_username = JStr ''B'', cu_socketId = ''c2''\<rparr>,
           \<lparr>cu_id = [], cu_username = JArr [], cu_socketId = ''c1''\<rparr>],
          [Emit ToAll ''users-updated''
             (Some (JArr [JObj [(''id'', JStr ''u2''), (''username'', JStr ''B''),
                                (''socketId'', JStr ''c2'')],
                          JObj [(''id'', JStr []), (''username'', JArr []),
                                (''socketId'', JStr ''c1'')]]))])"
proof -
  have h: "\<not> toString_throws (JArr [])" by simp
  show ?thesis
    using h register_user_no_validation[OF h,
        of "\<lparr>users = [(''u2'', \<lparr>userId = ''u2'', username = JStr ''B'', socketId = ''c2''\<rparr>)],
             socketToUser = [(''c2'', ''u2'')], rooms = [], next_ref = 0\<rparr>" "''c1''" "[]"
           "[\<lparr>cu_id = ''u2'', cu_username = JStr ''B'', cu_socketId = ''c2''\<rparr>]"]
    by (simp add: register_user_def register_user_arr_def user_json_def
          connected_user_json_def Let_def)
qed

section \<open>Calls with incomplete caller information\<close>

text \<open>
  The validated variant refuses a \<open>callerInfo\<close> without \<open>id\<close> or \<open>username\<close> before
  it reads the registry: the result does not depend on \<open>users\<close>.
\<close>

lemma call_user_val_invalid_callerInfo:
  "invalid_callerInfo callerInfo \<Longrightarrow>
   call_user_val s sid targetUserId callerInfo offer =
     Inr (s, [Emit (ToSocket sid) ''call-failed''
                (Some (JObj [(''error'', JStr ''Invalid caller information.'')]))])"
  by (simp add: call_user_val_def)

text \<open>
  Claim C5 asks that a \<open>call-user\<close> whose \<open>callerInfo\<close> lacks an \<open>id\<close> or a
  \<open>username\<close> is answered with \<open>call-failed\<close> to the caller, with no lookup of the
  target and nothing relayed. index.js has no such check: with \<open>u2\<close> registered on
  \<open>c2\<close>, a call from \<open>c1\<close> whose \<open>callerInfo\<close> is \<open>{id: u1}\<close> is relayed to \<open>c2\<close> as
  \<open>incoming-call\<close> and confirmed to \<open>c1\<close> with \<open>call-initiated\<close>.
\<close>

theorem call_user_without_username_is_relayed:
  "run step empty_state
     [(''c2'', RegisterUser ''u2'' (JStr ''B'')),
      (''c1'', CallUser ''u2'' (JObj [(''id'', JStr ''u1'')]) (JStr ''sdp''))] =
   Inr (\<lparr>users = [(''u2'', \<lparr>userId = ''u2'', username = JStr ''B'', socketId = ''c2''\<rparr>)],
          socketToUser = [(''c2'', ''u2'')], rooms = [], next_ref = 0\<rparr>,
        [Emit ToAll ''users-updated''
           (Some (JArr [JObj [(''userId'', JStr ''u2''), (''username'', JStr ''B''),
                              (''socketId'', JStr ''c2'')]])),
         Emit (To ''c2'') ''incoming-call''
           (Some (JObj [(''caller'', JObj [(''id'', JStr ''u1'')]), (''offer'', JStr ''sdp''),
                        (''callId'', JStr ''c1'')])),
         Emit (ToSocket ''c1'') ''call-initiated''
           (Some (JObj [(''targetUser'',
                         JObj [(''username'', JStr ''B''), (''id'', JStr ''u2'')])]))])"
  by (simp add: register_user_def call_user_def empty_state_def user_json_def)

section \<open>Room membership\<close>

text \<open>
  When the members of a room are distinct objects, the loop of \<open>leave-room\<close> removes
  every member of the leaving connection and nothing else.
\<close>

lemma set_delete_distinct:
  "distinct (map mref room) \<Longrightarrow> m \<in> set room \<Longrightarrow> set_delete m room = removeAll m room"
proof -
  assume d: "distinct (map mref room)" and m: "m \<in> set room"
  have "\<forall>x \<in> set room. (mref x \<noteq> mref m) = (x \<noteq> m)"
    using d m by (auto simp: distinct_map inj_on_def)
  then show ?thesis
    by (simp add: set_delete_def removeAll_filter_not_eq cong: filter_cong) metis
qed

lemma leave_loop_filter:
  "distinct (map mref room) \<Longrightarrow> distinct todo \<Longrightarrow> set todo \<subseteq> set room \<Longrightarrow>
   leave_loop sid todo room = filter (\<lambda>x. \<not> (x \<in> set todo \<and> member_socketId x = sid)) room"
proof (induction todo arbitrary: room)
  case Nil
  then show ?case by simp
next
  case (Cons m todo)
  then have m: "m \<in> set room" and has: "set_has m room"
    by (auto simp: set_has_def)
  show ?case
  proof (cases "member_socketId m = sid")
    case True
    let ?room' = "removeAll m room"
    have del: "set_delete m room = ?room'"
      using set_delete_distinct[OF Cons.prems(1) m] .
    have d': "distinct (map mref ?room')"
      using Cons.prems(1) by (simp add: distinct_map_filter removeAll_filter_not_eq)
    have sub: "set todo \<subseteq> set ?room'"
      using Cons.prems(2,3) by auto
    have "leave_loop sid (m # todo) room = leave_loop sid todo ?room'"
      using True has del by simp
    also have "\<dots> = filter (\<lambda>x. \<not> (x \<in> set todo \<and> member_socketId x = sid)) ?room'"
      using Cons.IH[OF d' _ sub] Cons.prems(2) by simp
    also have "\<dots> = filter (\<lambda>x. \<not> (x \<in> set (m # todo) \<and> member_socketId x = sid)) room"
      using True by (auto simp: removeAll_filter_not_eq intro: filter_cong)
    finally show ?thesis .
  next
    case False
    have "leave_loop sid (m # todo) room = leave_loop sid todo room"
      using False by simp
    also have "\<dots> = filter (\<lambda>x. \<not> (x \<in> set todo \<and> member_socketId x = sid)) room"
      using Cons.IH[OF Cons.prems(1)] Cons.prems(2,3) by simp
    also have "\<dots> = filter (\<lambda>x. \<not> (x \<in> set (m # todo) \<and> member_socketId x = sid)) room"
      using False by (auto intro: filter_cong)
    finally show ?thesis .
  qed
qed

lemma leave_loop_removes_connection:
  assumes "distinct (map mref room)"
  shows "leave_loop sid room room = filter (\<lambda>x. member_socketId x \<noteq> sid) room"
proof -
  have "distinct room" using assms by (simp add: distinct_map)
  from leave_loop_filter[OF assms this, of sid] show ?thesis
    by (auto intro: filter_cong)
qed

text \<open>
  Claim C6 asks that a room never holds two entries of one connection. Each
  \<open>join-room\<close> adds a new object to the \<open>Set\<close>, and a \<open>Set\<close> tells objects apart by
  identity: after two \<open>join-room\<close> of connection \<open>c1\<close> for room \<open>r\<close> the room holds
  two entries of \<open>c1\<close>, in index.js and in the validated variant.
\<close>

theorem double_join_duplicates_member:
  "run step empty_state
     [(''c1'', JoinRoom ''r'' (JStr ''i'')), (''c1'', JoinRoom ''r'' (JStr ''i''))] =
   Inr (\<lparr>users = [], socketToUser = [],
          rooms = [(''r'', [\<lparr>mref = 0, member_socketId = ''c1'', userInfo = JStr ''i''\<rparr>,
                            \<lparr>mref = 1, member_socketId = ''c1'', userInfo = JStr ''i''\<rparr>])],
          next_ref = 2\<rparr>,
        [SocketJoin ''c1'' ''r'',
         Emit (ToRoomExceptSender ''r'' ''c1'') ''user-joined''
           (Some (JObj [(''socketId'', JStr ''c1''), (''userInfo'', JStr ''i'')])),
         Emit (ToSocket ''c1'') ''room-members'' (Some (JArr [])),
         SocketJoin ''c1'' ''r'',
         Emit (ToRoomExceptSender ''r'' ''c1'') ''user-joined''
           (Some (JObj [(''socketId'', JStr ''c1''), (''userInfo'', JStr ''i'')])),
         Emit (ToSocket ''c1'') ''room-members'' (Some (JArr []))])
   \<and> run step_val empty_state
     [(''c1'', JoinRoom ''r'' (JStr ''i'')), (''c1'', JoinRoom ''r'' (JStr ''i''))] =
   Inr (\<lparr>users = [], socketToUser = [],
          rooms = [(''r'', [\<lparr>mref = 0, member_socketId = ''c1'', userInfo = JStr ''i''\<rparr>,
                            \<lparr>mref = 1, member_socketId = ''c1'', userInfo = JStr ''i''\<rparr>])],
          next_ref = 2\<rparr>,
        [SocketJoin ''c1'' ''r'',
         Emit (ToRoomExceptSender ''r'' ''c1'') ''user-joined''
           (Some (JObj [(''socketId'', JStr ''c1''), (''userInfo'', JStr ''i'')])),
         Emit (ToSocket ''c1'') ''room-members'' (Some (JArr [])),
         SocketJoin ''c1'' ''r'',
         Emit (ToRoomExceptSender ''r'' ''c1'') ''user-joined''
           (Some (JObj [(''socketId'', JStr ''c1''), (''userInfo'', JStr ''i'')])),
         Emit (ToSocket ''c1'') ''room-members'' (Some (JArr []))])"
  by (simp add: join_room_def join_room_val_def empty_state_def set_add_def set_has_def Let_def)

text \<open>Leaving a room that does not exist changes nothing and emits nothing.\<close>

lemma leave_room_no_room:
  "map_of (rooms s) roomId = None \<Longrightarrow>
   leave_room s sid roomId = Inr (s, [SocketLeave sid roomId])
   \<and> leave_room_val s sid roomId = Inr (s, [SocketLeave sid roomId])
   \<and> emitted [SocketLeave sid roomId] = []"
  by (simp add: leave_room_def leave_room_val_def emitted_def)

text \<open>
  Claim C7 asks that \<open>leave-room\<close> emits \<open>user-left\<close> only when an entry of the
  connection was removed, and is a no-op otherwise. Both handlers emit whenever the room
  exists: after \<open>c1\<close> joined room \<open>r\<close>, a \<open>leave-room\<close> of \<open>c2\<close>, which never
  joined, leaves the room as it is and still sends \<open>user-left\<close> with \<open>c2\<close> to the room.
\<close>

theorem leave_room_non_member_emits:
  "run step empty_state [(''c1'', JoinRoom ''r'' (JStr ''i'')), (''c2'', LeaveRoom ''r'')] =
   Inr (\<lparr>users = [], socketToUser = [],
          rooms = [(''r'', [\<lparr>mref = 0, member_socketId = ''c1'', userInfo = JStr ''i''\<rparr>])],
          next_ref = 1\<rparr>,
        [SocketJoin ''c1'' ''r'',
         Emit (ToRoomExceptSender ''r'' ''c1'') ''user-joined''
           (Some (JObj [(''socketId'', JStr ''c1''), (''userInfo'', JStr ''i'')])),
         Emit (ToSocket ''c1'') ''room-members'' (Some (JArr [])),
         SocketLeave ''c2'' ''r'',
         Emit (ToRoomExceptSender ''r'' ''c2'') ''user-left''
           (Some (JObj [(''socketId'', JStr ''c2'')]))])
   \<and> run step_val empty_state [(''c1'', JoinRoom ''r'' (JStr ''i'')), (''c2'', LeaveRoom ''r'')] =
   Inr (\<lparr>users = [], socketToUser = [],
          rooms = [(''r'', [\<lparr>mref = 0, member_socketId = ''c1'', userInfo = JStr ''i''\<rparr>])],
          next_ref = 1\<rparr>,
        [SocketJoin ''c1'' ''r'',
         Emit (ToRoomExceptSender ''r'' ''c1'') ''user-joined''
           (Some (JObj [(''socketId'', JStr ''c1''), (''userInfo'', JStr ''i'')])),
         Emit (ToSocket ''c1'') ''room-members'' (Some (JArr [])),
         SocketLeave ''c2'' ''r'',
         Emit (ToRoomExceptSender ''r'' ''c2'') ''user-left''
           (Some (JObj [(''socketId'', JStr ''c2'')]))])"
  by (simp add: join_room_def join_room_val_def leave_room_def leave_room_val_def empty_state_def
        set_add_def set_has_def set_delete_def Let_def)

section \<open>Disconnection of a connection that never registered\<close>

lemma disconnect_loop_not_member:
  "\<forall>m \<in> set todo. member_socketId m \<noteq> sid \<Longrightarrow> disconnect_loop sid roomId todo room = (room, [])"
  by (induction todo arbitrary: room) auto

lemma disconnect_rooms_not_member:
  "\<forall>p \<in> set rs. \<forall>m \<in> set (snd p). member_socketId m \<noteq> sid \<Longrightarrow> disconnect_rooms sid rs = (rs, [])"
  by (induction rs) (auto simp: disconnect_loop_not_member)

text \<open>
  In index.js and in the validated variant such a disconnection leaves the state as it
  is and still broadcasts the snapshot; in the array variant it emits nothing.
\<close>

lemma disconnect_never_registered:
  assumes "map_of (socketToUser s) sid = None"
    and "\<forall>p \<in> set (rooms s). \<forall>m \<in> set (snd p). member_socketId m \<noteq> sid"
  shows "disconnect s sid =
           Inr (s, [Emit ToAll ''users-updated'' (Some (JArr (map user_json (snapshot s))))])"
    and "disconnect_val s sid =
           Inr (s, [Emit ToAll ''users-updated'' (Some (JArr (map user_json (snapshot s))))])"
proof -
  have "sid \<notin> fst ` set (socketToUser s)"
    using assms(1) by (simp add: map_of_eq_None_iff)
  then have del: "AList.delete sid (socketToUser s) = socketToUser s"
    by simp
  show "disconnect s sid =
           Inr (s, [Emit ToAll ''users-updated'' (Some (JArr (map user_json (snapshot s))))])"
    using assms(1) del disconnect_rooms_not_member[OF assms(2)]
    by (simp add: disconnect_def Let_def snapshot_def)
  show "disconnect_val s sid =
           Inr (s, [Emit ToAll ''users-updated'' (Some (JArr (map user_json (snapshot s))))])"
    using assms(1) disconnect_rooms_not_member[OF assms(2)]
    by (simp add: disconnect_val_def Let_def snapshot_def)
qed

lemma disconnect_arr_never_registered:
  "\<forall>u \<in> set cus. cu_socketId u \<noteq> sid \<Longrightarrow> disconnect_arr cus sid = Inr (cus, [])"
  using findIndex_neg[of "\<lambda>u. cu_socketId u = sid" cus]
  by (simp add: disconnect_arr_def Let_def)

text \<open>
  Claim C8 asks that the disconnection of a connection that never registered produces
  no event, in particular no \<open>users-updated\<close>. With \<open>u2\<close> registered on \<open>c2\<close>, the
  disconnection of \<open>c1\<close>, which never registered and is in no room, leaves registry and
  rooms unchanged but broadcasts \<open>users-updated\<close> in index.js and in the validated
  variant; only the array variant stays silent.
\<close>

theorem disconnect_unregistered_broadcasts:
  "run step empty_state [(''c2'', RegisterUser ''u2'' (JStr ''B'')), (''c1'', Disconnect)] =
   Inr (\<lparr>users = [(''u2'', \<lparr>userId = ''u2'', username = JStr ''B'', socketId = ''c2''\<rparr>)],
          socketToUser = [(''c2'', ''u2'')], rooms = [], next_ref = 0\<rparr>,
        [Emit ToAll ''users-updated''
           (Some (JArr [JObj [(''userId'', JStr ''u2''), (''username'', JStr ''B''),
                              (''socketId'', JStr ''c2'')]])),
         Emit ToAll ''users-updated''
           (Some (JArr [JObj [(''userId'', JStr ''u2''), (''username'', JStr ''B''),
                              (''socketId'', JStr ''c2'')]]))])
   \<and> run step_val empty_state [(''c2'', RegisterUser ''u2'' (JStr ''B'')), (''c1'', Disconnect)] =
   Inr (\<lparr>users = [(''u2'', \<lparr>userId = ''u2'', username = JStr ''B'', socketId = ''c2''\<rparr>)],
          socketToUser = [(''c2'', ''u2'')], rooms = [], next_ref = 0\<rparr>,
        [Emit ToAll ''users-updated''
           (Some (JArr [JObj [(''userId'', JStr ''u2''), (''username'', JStr ''B''),
                              (''socketId'', JStr ''c2'')]])),
         Emit ToAll ''users-updated''
           (Some (JArr [JObj [(''userId'', JStr ''u2''), (''username'', JStr ''B''),
                              (''socketId'', JStr ''c2'')]]))])
   \<and> run step_arr [] [(''c2'', RegisterUserArr ''u2'' (JStr ''B'')), (''c1'', DisconnectArr)] =
   Inr ([\<lparr>cu_id = ''u2'', cu_username = JStr ''B'', cu_socketId = ''c2''\<rparr>],
        [Emit ToAll ''users-updated''
           (Some (JArr [JObj [(''id'', JStr ''u2''), (''username'', JStr ''B''),
                              (''socketId'', JStr ''c2'')]]))])"
  by (simp add: register_user_def register_user_val_def register_user_arr_def disconnect_def
        disconnect_val_def disconnect_arr_def empty_state_def user_json_def
        connected_user_json_def Let_def)

section \<open>Room relays\<close>

text \<open>
  Claim C9 asks that \<open>room-offer\<close>, \<open>room-answer\<close> and \<open>room-ice-candidate\<close> each
  relay their payload together with the connection id of the sender. \<open>room-offer\<close>
  does (\<open>callerSocketId\<close>); the payloads of \<open>room-answer\<close> and of
  \<open>room-ice-candidate\<close> hold the answer or the candidate alone, in index.js and in the
  validated variant.
\<close>

theorem room_answer_and_candidate_without_sender:
  "room_offer empty_state ''c1'' ''r'' ''c2'' (JStr ''sdp'') =
     Inr (empty_state,
          [Emit (To ''c2'') ''room-offer''
             (Some (JObj [(''offer'', JStr ''sdp''), (''callerSocketId'', JStr ''c1'')]))])
   \<and> room_answer empty_state ''c1'' ''c2'' (JStr ''sdp'') =
     Inr (empty_state, [Emit (To ''c2'') ''room-answer'' (Some (JObj [(''answer'', JStr ''sdp'')]))])
   \<and> room_ice_candidate empty_state ''c1'' ''c2'' (JStr ''cand'') =
     Inr (empty_state,
          [Emit (To ''c2'') ''room-ice-candidate'' (Some (JObj [(''candidate'', JStr ''cand'')]))])
   \<and> room_answer_val empty_state ''c1'' ''c2'' (JStr ''sdp'') =
     Inr (empty_state, [Emit (To ''c2'') ''room-answer'' (Some (JObj [(''answer'', JStr ''sdp'')]))])
   \<and> room_ice_candidate_val empty_state ''c1'' ''c2'' (JStr ''cand'') =
     Inr (empty_state,
          [Emit (To ''c2'') ''room-ice-candidate'' (Some (JObj [(''candidate'', JStr ''cand'')]))])"
  by (simp add: room_offer_def room_answer_def room_ice_candidate_def room_answer_val_def
        room_ice_candidate_val_def)

section \<open>Re-registration and the reverse mapping\<close>

text \<open>
  With the empty \<open>userId\<close> the old connection's disconnection removes no row: the
  handlers test the \<open>userId\<close> found in the reverse mapping for truthiness first.
\<close>

theorem empty_userId_survives_old_disconnect_counterexample:
  "run step empty_state
     [(''c1'', RegisterUser [] (JStr ''A'')), (''c2'', RegisterUser [] (JStr ''A'')),
      (''c1'', Disconnect)] =
   Inr (\<lparr>users = [([], \<lparr>userId = [], username = JStr ''A'', socketId = ''c2''\<rparr>)],
          socketToUser = [(''c2'', [])], rooms = [], next_ref = 0\<rparr>,
        [Emit ToAll ''users-updated''
           (Some (JArr [JObj [(''userId'', JStr []), (''username'', JStr ''A''),
                              (''socketId'', JStr ''c1'')]])),
         Emit ToAll ''users-updated''
           (Some (JArr [JObj [(''userId'', JStr []), (''username'', JStr ''A''),
                              (''socketId'', JStr ''c2'')]])),
         Emit ToAll ''users-updated''
           (Some (JArr [JObj [(''userId'', JStr []), (''username'', JStr ''A''),
                              (''socketId'', JStr ''c2'')]]))])
   \<and> run step_val empty_state
     [(''c1'', RegisterUser [] (JStr ''A'')), (''c2'', RegisterUser [] (JStr ''A'')),
      (''c1'', Disconnect)] =
   Inr (\<lparr>users = [([], \<lparr>userId = [], username = JStr ''A'', socketId = ''c2''\<rparr>)],
          socketToUser = [(''c1'', []), (''c2'', [])], rooms = [], next_ref = 0\<rparr>,
        [Emit ToAll ''users-updated''
           (Some (JArr [JObj [(''userId'', JStr []), (''username'', JStr ''A''),
                              (''socketId'', JStr ''c1'')]])),
         Emit ToAll ''users-updated''
           (Some (JArr [JObj [(''userId'', JStr []), (''username'', JStr ''A''),
                              (''socketId'', JStr ''c2'')]])),
         Emit ToAll ''users-updated''
           (Some (JArr [JObj [(''userId'', JStr []), (''username'', JStr ''A''),
                              (''socketId'', JStr ''c2'')]]))])"
  by (simp add: register_user_def register_user_val_def disconnect_def disconnect_val_def
        empty_state_def user_json_def Let_def)

lemma disconnect_rooms_total: "\<exists>rooms' acts. disconnect_rooms sid rs = (rooms', acts)"
  by (cases "disconnect_rooms sid rs") simp

lemma two_registers:
  assumes "\<not> toString_throws n1" and "\<not> toString_throws n2"
  shows "run step s [(c1, RegisterUser u n1), (c2, RegisterUser u n2)] =
     Inr (s\<lparr>users := AList.update u \<lparr>userId = u, username = n2, socketId = c2\<rparr> (users s),
            socketToUser := AList.update c2 u (AList.update c1 u (socketToUser s))\<rparr>,
          [Emit ToAll ''users-updated''
             (Some (JArr (map user_json (map snd
                (AList.update u \<lparr>userId = u, username = n1, socketId = c1\<rparr> (users s)))))),
           Emit ToAll ''users-updated''
             (Some (JArr (map user_json (map snd
                (AList.update u \<lparr>userId = u, username = n2, socketId = c2\<rparr> (users s))))))])"
  using assms by (simp add: register_user_def Let_def)

lemma two_registers_return:
  "(\<exists>s2 a2. run step s [(c1, RegisterUser u n1), (c2, RegisterUser u n2)] = Inr (s2, a2))
   = (\<not> toString_throws n1 \<and> \<not> toString_throws n2)"
  using run_registers[of "[(c1, u, n1), (c2, u, n2)]" s]
    run_registers_returns[of s "[(c1, u, n1), (c2, u, n2)]"]
  by (simp add: register_msg_def) blast

lemma two_registers_val:
  "run step_val s [(c1, RegisterUser u n1), (c2, RegisterUser u n2)] =
   run step s [(c1, RegisterUser u n1), (c2, RegisterUser u n2)]"
  using run_registers_val[of s "[(c1, u, n1), (c2, u, n2)]"]
  by (simp only: list.map register_msg_def prod.case)

lemma disconnect_stale:
  assumes inv: "registry_inv s2" and rev: "map_of (socketToUser s2) c1 = Some u"
    and row: "map_of (users s2) u = Some r" and ne: "u \<noteq> []"
    and pr: "\<not> toString_throws (username r)"
  shows "\<exists>s3 a3. disconnect s2 c1 = Inr (s3, a3) \<and> map_of (users s3) u = None
           \<and> u \<notin> userId ` set (snapshot s3)
           \<and> last a3 = Emit ToAll ''users-updated'' (Some (JArr (map user_json (snapshot s3))))"
proof -
  obtain rooms' acts where rs: "disconnect_rooms c1 (rooms s2) = (rooms', acts)"
    using disconnect_rooms_total by blast
  let ?s3 = "s2\<lparr>users := AList.delete u (users s2),
                socketToUser := AList.delete c1 (socketToUser s2), rooms := rooms'\<rparr>"
  let ?a3 = "acts @ [Emit ToAll ''users-updated'' (Some (JArr (map user_json (snapshot ?s3))))]"
  have d: "disconnect s2 c1 = Inr (?s3, ?a3)"
    using rev row ne pr rs by (simp add: disconnect_def Let_def snapshot_def)
  have inv3: "registry_inv ?s3"
    using disconnect_inv[OF inv d] .
  then have "userId ` set (snapshot ?s3) = fst ` set (users ?s3)"
    using snapshot_userIds[of ?s3] by (metis registry_inv_def set_map)
  moreover have "u \<notin> fst ` set (users ?s3)"
    by (simp add: delete_notin_dom)
  moreover have "map_of (users ?s3) u = None"
    by (simp add: delete_conv')
  ultimately show ?thesis using d by auto
qed

lemma disconnect_val_stale:
  assumes inv: "registry_inv s2" and rev: "map_of (socketToUser s2) c1 = Some u"
    and row: "map_of (users s2) u = Some r" and ne: "u \<noteq> []"
    and pr: "\<not> toString_throws (username r)"
  shows "\<exists>s3 a3. disconnect_val s2 c1 = Inr (s3, a3) \<and> map_of (users s3) u = None
           \<and> u \<notin> userId ` set (snapshot s3)
           \<and> last a3 = Emit ToAll ''users-updated'' (Some (JArr (map user_json (snapshot s3))))"
proof -
  obtain rooms' acts where rs: "disconnect_rooms c1 (rooms s2) = (rooms', acts)"
    using disconnect_rooms_total by blast
  let ?s3 = "s2\<lparr>users := AList.delete u (users s2),
                socketToUser := AList.delete c1 (socketToUser s2), rooms := rooms'\<rparr>"
  let ?a3 = "acts @ [Emit ToAll ''users-updated'' (Some (JArr (map user_json (snapshot ?s3))))]"
  have d: "disconnect_val s2 c1 = Inr (?s3, ?a3)"
    using rev row ne pr rs by (simp add: disconnect_val_def Let_def snapshot_def)
  have inv3: "registry_inv ?s3"
    using disconnect_val_inv[OF inv d] .
  then have "userId ` set (snapshot ?s3) = fst ` set (users ?s3)"
    using snapshot_userIds[of ?s3] by (metis registry_inv_def set_map)
  moreover have "u \<notin> fst ` set (users ?s3)"
    by (simp add: delete_notin_dom)
  moreover have "map_of (users ?s3) u = None"
    by (simp add: delete_conv')
  ultimately show ?thesis using d by auto
qed

lemma reregister_then_disconnect:
  assumes inv: "registry_inv s" and ne: "u \<noteq> []" and diff: "c1 \<noteq> c2"
    and run: "run step s [(c1, RegisterUser u n1), (c2, RegisterUser u n2)] = Inr (s2, a2)"
  shows "map_of (socketToUser s2) c1 = Some u
       \<and> map_of (users s2) u = Some \<lparr>userId = u, username = n2, socketId = c2\<rparr>
       \<and> (\<exists>s3 a3. step s2 (c1, Disconnect) = Inr (s3, a3)
            \<and> map_of (users s3) u = None
            \<and> u \<notin> userId ` set (snapshot s3)
            \<and> last a3 = Emit ToAll ''users-updated'' (Some (JArr (map user_json (snapshot s3)))))
       \<and> (\<exists>s3 a3. step_val s2 (c1, Disconnect) = Inr (s3, a3)
            \<and> map_of (users s3) u = None
            \<and> u \<notin> userId ` set (snapshot s3)
            \<and> last a3 = Emit ToAll ''users-updated'' (Some (JArr (map user_json (snapshot s3)))))"
proof -
  have pr: "\<not> toString_throws n1" "\<not> toString_throws n2"
    using two_registers_return[of s c1 u n1 c2 n2] run by blast+
  have s2: "s2 = s\<lparr>users := AList.update u \<lparr>userId = u, username = n2, socketId = c2\<rparr> (users s),
               socketToUser := AList.update c2 u (AList.update c1 u (socketToUser s))\<rparr>"
    using run two_registers[OF pr, of s c1 u c2] by simp
  have inv2: "registry_inv s2"
    using run_step_inv[OF inv run] .
  have rev: "map_of (socketToUser s2) c1 = Some u"
    using diff by (simp add: s2 update_conv')
  have row: "map_of (users s2) u = Some \<lparr>userId = u, username = n2, socketId = c2\<rparr>"
    by (simp add: s2 update_conv')
  have pr2: "\<not> toString_throws (username \<lparr>userId = u, username = n2, socketId = c2\<rparr>)"
    using pr by simp
  from disconnect_stale[OF inv2 rev row ne pr2] disconnect_val_stale[OF inv2 rev row ne pr2]
    rev row
  show ?thesis by simp
qed

text \<open>
  Claim C10, as amended. In a state \<open>s\<close> reached by any run, let a non-empty \<open>userId\<close>
  \<open>u\<close> register on connection \<open>c1\<close> and then on another connection \<open>c2\<close>; the two
  registrations complete exactly when their usernames have a string. After them the
  reverse mapping still binds \<open>c1\<close> to \<open>u\<close> while the row of \<open>u\<close> carries \<open>c2\<close>; the
  disconnection of \<open>c1\<close> then returns, deletes that row, and its last emission is a
  \<open>users-updated\<close> broadcast whose snapshot has no row of \<open>u\<close>, although \<open>c2\<close> never
  disconnected. This holds for index.js and for the validated variant.
\<close>

theorem stale_reverse_mapping:
  assumes ne: "u \<noteq> []" and diff: "c1 \<noteq> c2"
  shows "(run step empty_state evts = Inr (s, acts) \<longrightarrow>
          ((\<exists>s2 a2. run step s [(c1, RegisterUser u n1), (c2, RegisterUser u n2)] = Inr (s2, a2))
             = (\<not> toString_throws n1 \<and> \<not> toString_throws n2))
          \<and> (run step s [(c1, RegisterUser u n1), (c2, RegisterUser u n2)] = Inr (s2, a2) \<longrightarrow>
              map_of (socketToUser s2) c1 = Some u
            \<and> map_of (users s2) u = Some \<lparr>userId = u, username = n2, socketId = c2\<rparr>
            \<and> (\<exists>s3 a3. step s2 (c1, Disconnect) = Inr (s3, a3)
                 \<and> map_of (users s3) u = None
                 \<and> u \<notin> userId ` set (snapshot s3)
                 \<and> last a3 =
                     Emit ToAll ''users-updated'' (Some (JArr (map user_json (snapshot s3)))))))
       \<and> (run step_val empty_state evts = Inr (s, acts) \<longrightarrow>
          ((\<exists>s2 a2. run step_val s [(c1, RegisterUser u n1), (c2, RegisterUser u n2)] = Inr (s2, a2))
             = (\<not> toString_throws n1 \<and> \<not> toString_throws n2))
          \<and> (run step_val s [(c1, RegisterUser u n1), (c2, RegisterUser u n2)] = Inr (s2, a2) \<longrightarrow>
              map_of (socketToUser s2) c1 = Some u
            \<and> map_of (users s2) u = Some \<lparr>userId = u, username = n2, socketId = c2\<rparr>
            \<and> (\<exists>s3 a3. step_val s2 (c1, Disconnect) = Inr (s3, a3)
                 \<and> map_of (users s3) u = None
                 \<and> u \<notin> userId ` set (snapshot s3)
                 \<and> last a3 =
                     Emit ToAll ''users-updated'' (Some (JArr (map user_json (snapshot s3)))))))"
proof (intro conjI impI)
  assume "run step empty_state evts = Inr (s, acts)"
  then have inv: "registry_inv s"
    using run_step_inv[OF registry_inv_empty] by blast
  show "(\<exists>s2 a2. run step s [(c1, RegisterUser u n1), (c2, RegisterUser u n2)] = Inr (s2, a2))
          = (\<not> toString_throws n1 \<and> \<not> toString_throws n2)"
    by (rule two_registers_return)
  assume run: "run step s [(c1, RegisterUser u n1), (c2, RegisterUser u n2)] = Inr (s2, a2)"
  note r = reregister_then_disconnect[OF inv ne diff run]
  show "map_of (socketToUser s2) c1 = Some u" using r by simp
  show "map_of (users s2) u = Some \<lparr>userId = u, username = n2, socketId = c2\<rparr>" using r by simp
  show "\<exists>s3 a3. step s2 (c1, Disconnect) = Inr (s3, a3)
          \<and> map_of (users s3) u = None
          \<and> u \<notin> userId ` set (snapshot s3)
          \<and> last a3 = Emit ToAll ''users-updated'' (Some (JArr (map user_json (snapshot s3))))"
    using r by simp
next
  assume "run step_val empty_state evts = Inr (s, acts)"
  then have inv: "registry_inv s"
    using run_step_val_inv[OF registry_inv_empty] by blast
  show "(\<exists>s2 a2. run step_val s [(c1, RegisterUser u n1), (c2, RegisterUser u n2)] = Inr (s2, a2))
          = (\<not> toString_throws n1 \<and> \<not> toString_throws n2)"
    using two_registers_return[of s c1 u n1 c2 n2] by (simp only: two_registers_val)
  assume "run step_val s [(c1, RegisterUser u n1), (c2, RegisterUser u n2)] = Inr (s2, a2)"
  then have run: "run step s [(c1, RegisterUser u n1), (c2, RegisterUser u n2)] = Inr (s2, a2)"
    by (simp only: two_registers_val)
  note r = reregister_then_disconnect[OF inv ne diff run]
  show "map_of (socketToUser s2) c1 = Some u" using r by simp
  show "map_of (users s2) u = Some \<lparr>userId = u, username = n2, socketId = c2\<rparr>" using r by simp
  show "\<exists>s3 a3. step_val s2 (c1, Disconnect) = Inr (s3, a3)
          \<and> map_of (users s3) u = None
          \<and> u \<notin> userId ` set (snapshot s3)
          \<and> last a3 = Emit ToAll ''users-updated'' (Some (JArr (map user_json (snapshot s3))))"
    using r by simp
qed

theorem stale_reverse_mapping_witness:
  "''u'' \<noteq> [] \<and> ''c1'' \<noteq> ''c2''
   \<and> run step empty_state [] = Inr (empty_state, [])
   \<and> run step_val empty_state [] = Inr (empty_state, [])
   \<and> \<not> toString_throws (JStr ''A'')
   \<and> run step empty_state
       [(''c1'', RegisterUser ''u'' (JStr ''A'')), (''c2'', RegisterUser ''u'' (JStr ''A''))] =
     Inr (\<lparr>users = [(''u'', \<lparr>userId = ''u'', username = JStr ''A'', socketId = ''c2''\<rparr>)],
            socketToUser = [(''c1'', ''u''), (''c2'', ''u'')], rooms = [], next_ref = 0\<rparr>,
          [Emit ToAll ''users-updated''
             (Some (JArr [JObj [(''userId'', JStr ''u''), (''username'', JStr ''A''),
                                (''socketId'', JStr ''c1'')]])),
           Emit ToAll ''users-updated''
             (Some (JArr [JObj [(''userId'', JStr ''u''), (''username'', JStr ''A''),
                                (''socketId'', JStr ''c2'')]]))])
   \<and> run step_val empty_state
       [(''c1'', RegisterUser ''u'' (JStr ''A'')), (''c2'', RegisterUser ''u'' (JStr ''A''))] =
     Inr (\<lparr>users = [(''u'', \<lparr>userId = ''u'', username = JStr ''A'', socketId = ''c2''\<rparr>)],
            socketToUser = [(''c1'', ''u''), (''c2'', ''u'')], rooms = [], next_ref = 0\<rparr>,
          [Emit ToAll ''users-updated''
             (Some (JArr [JObj [(''userId'', JStr ''u''), (''username'', JStr ''A''),
                                (''socketId'', JStr ''c1'')]])),
           Emit ToAll ''users-updated''
             (Some (JArr [JObj [(''userId'', JStr ''u''), (''username'', JStr ''A''),
                                (''socketId'', JStr ''c2'')]]))])
   \<and> step \<lparr>users = [(''u'', \<lparr>userId = ''u'', username = JStr ''A'', socketId = ''c2''\<rparr>)],
            socketToUser = [(''c1'', ''u''), (''c2'', ''u'')], rooms = [], next_ref = 0\<rparr>
          (''c1'', Disconnect) =
     Inr (\<lparr>users = [], socketToUser = [(''c2'', ''u'')], rooms = [], next_ref = 0\<rparr>,
          [Emit ToAll ''users-updated'' (Some (JArr []))])
   \<and> step_val \<lparr>users = [(''u'', \<lparr>userId = ''u'', username = JStr ''A'', socketId = ''c2''\<rparr>)],
            socketToUser = [(''c1'', ''u''), (''c2'', ''u'')], rooms = [], next_ref = 0\<rparr>
          (''c1'', Disconnect) =
     Inr (\<lparr>users = [], socketToUser = [(''c2'', ''u'')], rooms = [], next_ref = 0\<rparr>,
          [Emit ToAll ''users-updated'' (Some (JArr []))])"
proof -
  have h: "''u'' \<noteq> []" "''c1'' \<noteq> ''c2''"
    by simp_all
  let ?s2 = "\<lparr>users = [(''u'', \<lparr>userId = ''u'', username = JStr ''A'', socketId = ''c2''\<rparr>)],
            socketToUser = [(''c1'', ''u''), (''c2'', ''u'')], rooms = [], next_ref = 0\<rparr>"
  let ?a2 = "[Emit ToAll ''users-updated''
             (Some (JArr [JObj [(''userId'', JStr ''u''), (''username'', JStr ''A''),
                                (''socketId'', JStr ''c1'')]])),
           Emit ToAll ''users-updated''
             (Some (JArr [JObj [(''userId'', JStr ''u''), (''username'', JStr ''A''),
                                (''socketId'', JStr ''c2'')]]))]"
  show ?thesis
    using h stale_reverse_mapping[OF h, of "[]" empty_state "[]" "JStr ''A''" "JStr ''A''" ?s2 ?a2]
    by (simp add: register_user_def register_user_val_def disconnect_def disconnect_val_def
          empty_state_def user_json_def Let_def)
qed

end
